theory Spec2Isabelle
  imports Main "HOL-Library.AList" "HOL-Library.Char_ord" "HOL-Library.List_Lexorder"
begin


section \<open>Python values shared by both scripts\<close>

text \<open>
  Both scripts are Python. A Python \<open>str\<close> is modelled as a \<open>string\<close> whose
  characters stand for code points below 256; the order on strings is the lexicographic
  order on code points, which is how Python compares and sorts \<open>str\<close>. An exception
  is a value of \<open>exn\<close>, and a function that may raise returns \<open>exn + 'a\<close> with
  \<open>Inl\<close> for the exception.
\<close>

datatype exn =
    ValueError string
  | RuntimeError string
  | KeyError string
  | TypeError string
  | AttributeError string
  | IndexError string
  | HttpError nat string
  | FileExistsError string
  | FileNotFoundError string
  | IsADirectoryError string
  | NotADirectoryError string

text \<open>
  A decoded JSON document, as \<open>json.loads\<close> returns it and \<open>json.dump\<close> accepts it.
  A \<open>dict\<close> keeps its insertion order, so it is an association list. A Python
  \<open>float\<close> is held as its \<open>repr\<close>.
\<close>

datatype json =
    JNull
  | JBool bool
  | JInt int
  | JFloat string
  | JStr string
  | JArr "json list"
  | JObj "(string \<times> json) list"

subsection \<open>String helpers of the standard library\<close>

definition is_space :: "char \<Rightarrow> bool" where
  \<comment> \<open>\<open>str.isspace\<close> on code points below 256\<close>
  "is_space c = (of_char c \<in> {9, 10, 11, 12, 13, 28, 29, 30, 31, 32, 133, 160 :: nat})"

definition strip :: "string \<Rightarrow> string" where
  \<comment> \<open>\<open>str.strip()\<close>\<close>
  "strip s = rev (dropWhile is_space (rev (dropWhile is_space s)))"

definition lstrip_chars :: "string \<Rightarrow> string \<Rightarrow> string" where
  \<comment> \<open>\<open>s.lstrip(chars)\<close>\<close>
  "lstrip_chars chars s = dropWhile (\<lambda>c. c \<in> set chars) s"

definition rstrip_chars :: "string \<Rightarrow> string \<Rightarrow> string" where
  \<comment> \<open>\<open>s.rstrip(chars)\<close>\<close>
  "rstrip_chars chars s = rev (dropWhile (\<lambda>c. c \<in> set chars) (rev s))"

fun split_sep :: "char \<Rightarrow> string \<Rightarrow> string list" where
  \<comment> \<open>\<open>s.split(sep)\<close> for a one-character separator: empty pieces are kept\<close>
  "split_sep sep [] = [[]]"
| "split_sep sep (c # cs) =
     (if c = sep then [] # split_sep sep cs
      else (case split_sep sep cs of
              [] \<Rightarrow> [[c]]
            | w # ws \<Rightarrow> (c # w) # ws))"

fun split_ws_acc :: "string \<Rightarrow> string \<Rightarrow> string list" where
  "split_ws_acc cur [] = (if cur = [] then [] else [cur])"
| "split_ws_acc cur (c # cs) =
     (if is_space c then (if cur = [] then split_ws_acc [] cs else cur # split_ws_acc [] cs)
      else split_ws_acc (cur @ [c]) cs)"

definition split_ws :: "string \<Rightarrow> string list" where
  \<comment> \<open>\<open>s.split()\<close>: pieces between runs of whitespace, none of them empty\<close>
  "split_ws s = split_ws_acc [] s"

definition is_linebreak :: "char \<Rightarrow> bool" where
  \<comment> \<open>the line boundaries of \<open>str.splitlines\<close> below 256, the pair CR LF apart\<close>
  "is_linebreak c = (of_char c \<in> {10, 11, 12, 13, 28, 29, 30, 133 :: nat})"

fun splitlines_acc :: "string \<Rightarrow> string \<Rightarrow> string list" where
  "splitlines_acc cur [] = (if cur = [] then [] else [cur])"
| "splitlines_acc cur [c] = (if is_linebreak c then [cur] else [cur @ [c]])"
| "splitlines_acc cur (c # d # ds) =
     (if c = CHR 0x0D \<and> d = CHR 0x0A then cur # splitlines_acc [] ds
      else if is_linebreak c then cur # splitlines_acc [] (d # ds)
      else splitlines_acc (cur @ [c]) (d # ds))"

definition splitlines :: "string \<Rightarrow> string list" where
  "splitlines s = splitlines_acc [] s"

fun join :: "string \<Rightarrow> string list \<Rightarrow> string" where
  \<comment> \<open>\<open>sep.join(xs)\<close>\<close>
  "join sep [] = []"
| "join sep [x] = x"
| "join sep (x # y # ys) = x @ sep @ join sep (y # ys)"

definition lower_char :: "char \<Rightarrow> char" where
  \<comment> \<open>\<open>str.lower\<close> on one code point below 256\<close>
  "lower_char c =
     (let n = (of_char c :: nat)
      in if (65 \<le> n \<and> n \<le> 90) \<or> (192 \<le> n \<and> n \<le> 222 \<and> n \<noteq> 215)
         then char_of (n + 32) else c)"

definition lower :: "string \<Rightarrow> string" where
  "lower s = map lower_char s"

definition upper_char :: "char \<Rightarrow> char" where
  \<comment> \<open>\<open>str.upper\<close> on one code point below 256 that has an upper case below 256\<close>
  "upper_char c =
     (let n = (of_char c :: nat)
      in if (97 \<le> n \<and> n \<le> 122) \<or> (224 \<le> n \<and> n \<le> 254 \<and> n \<noteq> 247)
         then char_of (n - 32) else c)"

fun contains :: "string \<Rightarrow> string \<Rightarrow> bool" where
  \<comment> \<open>\<open>needle in hay\<close> on strings\<close>
  "contains needle [] = (needle = [])"
| "contains needle (c # cs) = (needle = take (length needle) (c # cs) \<or> contains needle cs)"

definition digit_char :: "nat \<Rightarrow> char" where
  "digit_char d = char_of (48 + d)"

fun str_nat :: "nat \<Rightarrow> string" where
  "str_nat n = (if n < 10 then [digit_char n] else str_nat (n div 10) @ [digit_char (n mod 10)])"

declare str_nat.simps [simp del]

definition str_int :: "int \<Rightarrow> string" where
  \<comment> \<open>\<open>str(i)\<close> for an \<open>int\<close>\<close>
  "str_int i = (if i < 0 then CHR ''-'' # str_nat (nat (- i)) else str_nat (nat i))"

definition truthy_str :: "string option \<Rightarrow> bool" where
  \<comment> \<open>truth value of an \<open>Optional[str]\<close>: neither \<open>None\<close> nor empty\<close>
  "truthy_str s = (case s of None \<Rightarrow> False | Some v \<Rightarrow> v \<noteq> [])"

section \<open>The lock generator: \<open>scripts/lock/lib.py\<close>\<close>

record ImageMetadata =
  repository :: string
  tag :: "string option"
  digest :: "string option"
  tag_prefix :: "string option"

definition ImageMetadata_to_mapping :: "ImageMetadata \<Rightarrow> (string \<times> json) list" where
  "ImageMetadata_to_mapping m =
     [(''repository'', JStr (repository m))]
     @ (if truthy_str (tag m) then [(''tag'', JStr (the (tag m)))] else [])
     @ (if truthy_str (digest m) then [(''digest'', JStr (the (digest m)))] else [])"

record ServiceLock =
  submodule_path :: string
  git_sha :: string
  image :: ImageMetadata
  lock_notes :: "string option"

definition ServiceLock_to_mapping :: "ServiceLock \<Rightarrow> (string \<times> json) list" where
  "ServiceLock_to_mapping l =
     [(''submodule_path'', JStr (submodule_path l)),
      (''git_sha'', JStr (git_sha l)),
      (''image'', JObj (ImageMetadata_to_mapping (image l)))]
     @ (if truthy_str (lock_notes l) then [(''notes'', JStr (the (lock_notes l)))] else [])"

text \<open>
  \<open>subprocess.run\<close> is the outside world: a function from the argument vector to the
  return code, standard output and standard error of the process.
\<close>

record completed =
  returncode :: int
  stdout :: string
  stderr :: string

type_synonym subprocess = "string list \<Rightarrow> completed"

definition run_git_command :: "subprocess \<Rightarrow> string list \<Rightarrow> exn + string" where
  "run_git_command run args =
     (let process = run (''git'' # args)
      in if returncode process \<noteq> 0
         then Inl (RuntimeError (''git '' @ join '' '' args @ '' failed: '' @ strip (stderr process)))
         else Inr (strip (stdout process)))"

fun parse_status_lines :: "(string \<times> string) list \<Rightarrow> string list \<Rightarrow> exn + (string \<times> string) list" where
  "parse_status_lines result [] = Inr result"
| "parse_status_lines result (line # rest) =
     (if line = [] then parse_status_lines result rest
      else (case split_ws (strip line) of
              sha_field # path_field # _ \<Rightarrow>
                parse_status_lines
                  (AList.update path_field (lstrip_chars ''+-'' sha_field) result) rest
            | _ \<Rightarrow> Inl (IndexError ''list index out of range'')))"

definition list_submodules :: "subprocess \<Rightarrow> string list \<Rightarrow> exn + (string \<times> string) list" where
  "list_submodules run scope =
     (case run_git_command run ([''submodule'', ''status'', ''--recursive''] @ scope) of
        Inl e \<Rightarrow> Inl e
      | Inr status \<Rightarrow> parse_status_lines [] (splitlines status))"

definition path_name :: "string \<Rightarrow> string" where
  \<comment> \<open>\<open>Path(path).name\<close>: the last component, empty components and \<open>.\<close> dropped\<close>
  "path_name path =
     (let parts = filter (\<lambda>x. x \<noteq> [] \<and> x \<noteq> ''.'') (split_sep CHR ''/'' path)
      in if parts = [] then [] else last parts)"

definition filter_given :: "string list option \<Rightarrow> bool" where
  \<comment> \<open>truth value of \<open>services_filter\<close>: a list that is not empty\<close>
  "filter_given services_filter = (case services_filter of None \<Rightarrow> False | Some names \<Rightarrow> names \<noteq> [])"

definition resolve_lock ::
  "(string \<rightharpoonup> ImageMetadata) \<Rightarrow> string \<Rightarrow> string option \<Rightarrow> string \<Rightarrow> string \<Rightarrow> ServiceLock" where
  \<comment> \<open>the entry one pass of the loop of \<open>build_service_locks\<close> stores\<close>
  "resolve_lock image_metadata default_registry default_tag_prefix path sha =
     (let service_name = path_name path;
          image = (case image_metadata service_name of
                     Some m \<Rightarrow> m
                   | None \<Rightarrow> \<lparr>repository = default_registry @ ''/'' @ service_name,
                              tag = None, digest = None, tag_prefix = default_tag_prefix\<rparr>);
          final_tag = (if truthy_str (tag_prefix image)
                       then Some (the (tag_prefix image) @ take 7 sha)
                       else if tag image = None then Some (take 7 sha)
                       else tag image);
          resolved_image = \<lparr>repository = repository image, tag = final_tag,
                            digest = digest image, tag_prefix = None\<rparr>
      in \<lparr>submodule_path = path, git_sha = sha, image = resolved_image, lock_notes = None\<rparr>)"

fun collect_locks ::
  "(string \<rightharpoonup> ImageMetadata) \<Rightarrow> string list option \<Rightarrow> string \<Rightarrow> string option
   \<Rightarrow> (string \<times> ServiceLock) list \<Rightarrow> (string \<times> string) list \<Rightarrow> (string \<times> ServiceLock) list" where
  "collect_locks image_metadata services_filter default_registry default_tag_prefix locks [] = locks"
| "collect_locks image_metadata services_filter default_registry default_tag_prefix locks
     ((path, sha) # rest) =
     (if filter_given services_filter \<and> path_name path \<notin> set (the services_filter)
      then collect_locks image_metadata services_filter default_registry default_tag_prefix locks rest
      else collect_locks image_metadata services_filter default_registry default_tag_prefix
             (AList.update (path_name path)
                (resolve_lock image_metadata default_registry default_tag_prefix path sha) locks)
             rest)"

definition missing_services :: "string list option \<Rightarrow> (string \<times> ServiceLock) list \<Rightarrow> string list" where
  \<comment> \<open>\<open>sorted(set(services_filter) - set(locks.keys()))\<close>\<close>
  "missing_services services_filter locks =
     sort (remdups (filter (\<lambda>name. name \<notin> set (map fst locks)) (the services_filter)))"

definition locks_of_commits ::
  "(string \<times> string) list \<Rightarrow> (string \<rightharpoonup> ImageMetadata) \<Rightarrow> string list option \<Rightarrow> string
   \<Rightarrow> string option \<Rightarrow> exn + (string \<times> ServiceLock) list" where
  \<comment> \<open>\<open>build_service_locks\<close> from the point where \<open>service_commits\<close> is known\<close>
  "locks_of_commits service_commits image_metadata services_filter default_registry default_tag_prefix =
     (let locks = collect_locks image_metadata services_filter default_registry default_tag_prefix
                    [] service_commits
      in if filter_given services_filter \<and> missing_services services_filter locks \<noteq> []
         then Inl (ValueError (''Requested services missing from submodules: ''
                               @ join '', '' (missing_services services_filter locks)))
         else Inr locks)"

definition build_service_locks ::
  "subprocess \<Rightarrow> string list \<Rightarrow> (string \<rightharpoonup> ImageMetadata) \<Rightarrow> string list option \<Rightarrow> string
   \<Rightarrow> string option \<Rightarrow> exn + (string \<times> ServiceLock) list" where
  "build_service_locks run submodules_scope image_metadata services_filter default_registry
     default_tag_prefix =
     (case list_submodules run submodules_scope of
        Inl e \<Rightarrow> Inl e
      | Inr service_commits \<Rightarrow>
          locks_of_commits service_commits image_metadata services_filter default_registry
            default_tag_prefix)"

definition services_payload :: "(string \<times> ServiceLock) list \<Rightarrow> (string \<times> json) list" where
  \<comment> \<open>the dict comprehension over \<open>sorted(service_locks.items())\<close>; the names are the
      keys of a dict, so the sort never compares two locks\<close>
  "services_payload service_locks =
     map (\<lambda>(name, lock). (name, JObj (ServiceLock_to_mapping lock))) (sort_key fst service_locks)"

definition build_lock_payload ::
  "subprocess \<Rightarrow> string list option \<Rightarrow> (string \<rightharpoonup> ImageMetadata) \<Rightarrow> string \<Rightarrow> string \<Rightarrow> string
   \<Rightarrow> string option \<Rightarrow> exn + json" where
  \<comment> \<open>\<open>generated_at\<close> is \<open>timestamp.astimezone(timezone.utc).isoformat()\<close>\<close>
  "build_lock_payload run services_filter image_metadata generator_id generated_at
     default_registry default_tag_prefix =
     (case build_service_locks run [''services'', ''infra''] image_metadata services_filter
             default_registry default_tag_prefix of
        Inl e \<Rightarrow> Inl e
      | Inr service_locks \<Rightarrow>
          (case run_git_command run [''rev-parse'', ''--abbrev-ref'', ''HEAD''] of
             Inl e \<Rightarrow> Inl e
           | Inr source_branch \<Rightarrow>
               (case run_git_command run [''rev-parse'', ''HEAD''] of
                  Inl e \<Rightarrow> Inl e
                | Inr head_commit \<Rightarrow>
                    Inr (JObj
                      [(''metadata'', JObj
                          [(''generated_at'', JStr generated_at),
                           (''generator'', JStr generator_id),
                           (''source_branch'', JStr source_branch),
                           (''commit'', JStr head_commit)]),
                       (''services'', JObj (services_payload service_locks))]))))"

subsection \<open>\<open>json.dump(payload, handle, indent=2, sort_keys=True)\<close>\<close>

text \<open>
  The text the standard encoder produces with \<open>indent=2\<close>, \<open>sort_keys=True\<close> and the
  default \<open>ensure_ascii=True\<close>: every character outside the printable ASCII range, the
  double quote and the backslash are escaped.
\<close>

definition hex_digit :: "nat \<Rightarrow> char" where
  "hex_digit d = (if d < 10 then char_of (48 + d) else char_of (87 + d))"

definition escape_char :: "char \<Rightarrow> string" where
  "escape_char c =
     (let n = (of_char c :: nat)
      in if n = 0x22 then [CHR 0x5C, CHR 0x22]
         else if n = 0x5C then [CHR 0x5C, CHR 0x5C]
         else if n = 0x0A then [CHR 0x5C, CHR ''n'']
         else if n = 0x0D then [CHR 0x5C, CHR ''r'']
         else if n = 0x09 then [CHR 0x5C, CHR ''t'']
         else if n = 0x08 then [CHR 0x5C, CHR ''b'']
         else if n = 0x0C then [CHR 0x5C, CHR ''f'']
         else if 32 \<le> n \<and> n \<le> 126 then [c]
         else [CHR 0x5C, CHR ''u'', CHR ''0'', CHR ''0'', hex_digit (n div 16), hex_digit (n mod 16)])"

definition encode_basestring_ascii :: "string \<Rightarrow> string" where
  "encode_basestring_ascii s = CHR 0x22 # concat (map escape_char s) @ [CHR 0x22]"

definition newline_indent :: "nat \<Rightarrow> string" where
  "newline_indent level = CHR 0x0A # replicate (2 * level) CHR '' ''"

definition float_repr_json :: "string \<Rightarrow> string" where
  "float_repr_json r =
     (if r = ''nan'' then ''NaN'' else if r = ''inf'' then ''Infinity''
      else if r = ''-inf'' then ''-Infinity'' else r)"

fun iterencode :: "nat \<Rightarrow> json \<Rightarrow> string" where
  "iterencode level JNull = ''null''"
| "iterencode level (JBool b) = (if b then ''true'' else ''false'')"
| "iterencode level (JInt i) = str_int i"
| "iterencode level (JFloat r) = float_repr_json r"
| "iterencode level (JStr s) = encode_basestring_ascii s"
| "iterencode level (JArr xs) =
     (if xs = [] then ''[]''
      else ''['' @ newline_indent (Suc level)
           @ join ('','' @ newline_indent (Suc level)) (map (iterencode (Suc level)) xs)
           @ newline_indent level @ '']'')"
| "iterencode level (JObj kvs) =
     (if kvs = [] then ''{}''
      else ''{'' @ newline_indent (Suc level)
           @ join ('','' @ newline_indent (Suc level))
               (map (\<lambda>(k, v). encode_basestring_ascii k @ '': '' @ iterencode (Suc level) v)
                  (sort_key fst kvs))
           @ newline_indent level @ ''}'')"

definition json_dump :: "json \<Rightarrow> string" where
  "json_dump payload = iterencode 0 payload"

subsection \<open>The layout of the text, as the statements read it\<close>

text \<open>
  A pretty-printed document is a list of lines. A line has a nesting depth, the key of
  the member it opens, if any, and its text; it is written as two spaces for each level
  of depth, the key in double quotes with a colon and a space, and the text. The
  elements of an array and the members of an object are laid out one below the other,
  one level deeper than their brackets, with a comma after each but the last; the
  members of an object follow in ascending order of their keys.
\<close>

type_synonym line = "nat \<times> string option \<times> string"







fun with_comma :: "line list \<Rightarrow> line list" where
  "with_comma [] = []"
| "with_comma [(d, k, t)] = [(d, k, t @ '','')]"
| "with_comma (l # m # ls) = l # with_comma (m # ls)"










subsection \<open>The file system and \<open>dump_lock\<close>\<close>

text \<open>
  A path is the list of its components below the working directory, and the file
  system maps a path to what is there. \<open>walk\<close> is the lookup of the directories on the
  way to a path: a missing one is \<open>ENOENT\<close>, a regular file in the way is \<open>ENOTDIR\<close>.
\<close>

datatype node = Dir | File string

type_synonym path = "string list"

type_synonym filesystem = "path \<rightharpoonup> node"

definition path_str :: "path \<Rightarrow> string" where
  "path_str p = (if p = [] then ''.'' else join ''/'' p)"

fun walk :: "filesystem \<Rightarrow> path \<Rightarrow> path \<Rightarrow> exn option" where
  "walk fs seen [] = None"
| "walk fs seen (c # rest) =
     (case fs seen of
        None \<Rightarrow> Some (FileNotFoundError (path_str seen))
      | Some (File _) \<Rightarrow> Some (NotADirectoryError (path_str seen))
      | Some Dir \<Rightarrow> walk fs (seen @ [c]) rest)"

definition path_exists :: "filesystem \<Rightarrow> path \<Rightarrow> bool" where
  \<comment> \<open>\<open>Path.exists()\<close>\<close>
  "path_exists fs p = (walk fs [] p = None \<and> fs p \<noteq> None)"

definition is_dir :: "filesystem \<Rightarrow> path \<Rightarrow> bool" where
  \<comment> \<open>\<open>Path.is_dir()\<close>\<close>
  "is_dir fs p = (walk fs [] p = None \<and> fs p = Some Dir)"

definition os_mkdir :: "filesystem \<Rightarrow> path \<Rightarrow> exn + filesystem" where
  "os_mkdir fs p =
     (case walk fs [] p of
        Some e \<Rightarrow> Inl e
      | None \<Rightarrow> if fs p \<noteq> None then Inl (FileExistsError (path_str p)) else Inr (fs(p \<mapsto> Dir)))"

definition mkdir_exist_ok :: "filesystem \<Rightarrow> path \<Rightarrow> exn + filesystem" where
  \<comment> \<open>\<open>Path.mkdir(parents=False, exist_ok=True)\<close>\<close>
  "mkdir_exist_ok fs p =
     (case os_mkdir fs p of
        Inr fs' \<Rightarrow> Inr fs'
      | Inl (FileNotFoundError m) \<Rightarrow> Inl (FileNotFoundError m)
      | Inl e \<Rightarrow> if is_dir fs p then Inr fs else Inl e)"

function mkdir_parents :: "filesystem \<Rightarrow> path \<Rightarrow> exn + filesystem" where
  \<comment> \<open>\<open>Path.mkdir(parents=True, exist_ok=True)\<close>; \<open>butlast p\<close> is \<open>p.parent\<close>, and the
      working directory is its own parent\<close>
  "mkdir_parents fs p =
     (case os_mkdir fs p of
        Inr fs' \<Rightarrow> Inr fs'
      | Inl (FileNotFoundError m) \<Rightarrow>
          (if p = [] then Inl (FileNotFoundError m)
           else (case mkdir_parents fs (butlast p) of
                   Inl e \<Rightarrow> Inl e
                 | Inr fs1 \<Rightarrow> mkdir_exist_ok fs1 p))
      | Inl e \<Rightarrow> if is_dir fs p then Inr fs else Inl e)"
  by pat_completeness auto
termination
  by (relation "measure (\<lambda>(fs, p). length p)") auto

declare mkdir_parents.simps [simp del]

definition open_write :: "filesystem \<Rightarrow> path \<Rightarrow> string \<Rightarrow> exn + filesystem" where
  \<comment> \<open>\<open>open(p, "w")\<close>, the writes and the close\<close>
  "open_write fs p content =
     (case walk fs [] p of
        Some e \<Rightarrow> Inl e
      | None \<Rightarrow> if fs p = Some Dir then Inl (IsADirectoryError (path_str p))
                else Inr (fs(p \<mapsto> File content)))"

definition dump_lock :: "filesystem \<Rightarrow> json \<Rightarrow> path \<Rightarrow> bool \<Rightarrow> (exn + path) \<times> filesystem" where
  "dump_lock fs payload output force =
     (if path_exists fs output \<and> \<not> force
      then (Inl (FileExistsError (''Lock file already exists: '' @ path_str output)), fs)
      else (case mkdir_parents fs (butlast output) of
              Inl e \<Rightarrow> (Inl e, fs)
            | Inr fs1 \<Rightarrow>
                (case open_write fs1 output (json_dump payload @ [CHR 0x0A]) of
                   Inl e \<Rightarrow> (Inl e, fs1)
                 | Inr fs2 \<Rightarrow> (Inr output, fs2))))"

subsection \<open>Conditions on the file system used in the statements\<close>

definition is_file :: "node option \<Rightarrow> bool" where
  "is_file n = (case n of Some (File _) \<Rightarrow> True | _ \<Rightarrow> False)"

definition no_file_on :: "filesystem \<Rightarrow> path \<Rightarrow> bool" where
  \<comment> \<open>no regular file at the path or above it\<close>
  "no_file_on fs p = (\<forall>n\<le>length p. \<forall>c. fs (take n p) \<noteq> Some (File c))"

definition can_write :: "filesystem \<Rightarrow> path \<Rightarrow> bool" where
  \<comment> \<open>the path names something below the working directory, no regular file is in the
      way to it, and it is not a directory itself\<close>
  "can_write fs output =
     (output \<noteq> [] \<and> (\<forall>n<length output. \<not> is_file (fs (take n output))) \<and> fs output \<noteq> Some Dir)"

subsection \<open>Equal documents\<close>





section \<open>The seeder: \<open>scripts/seed_from_csv.py\<close>\<close>

subsection \<open>Dynamic operations on decoded JSON\<close>

text \<open>
  The seeder handles decoded JSON with Python's dynamic operations, and each of them can
  raise. \<open>None\<close> is \<open>JNull\<close>.
\<close>

fun py_truthy :: "json \<Rightarrow> bool" where
  "py_truthy JNull = False"
| "py_truthy (JBool b) = b"
| "py_truthy (JInt i) = (i \<noteq> 0)"
| "py_truthy (JFloat r) = (r \<noteq> ''0.0'' \<and> r \<noteq> ''-0.0'')"
| "py_truthy (JStr s) = (s \<noteq> [])"
| "py_truthy (JArr xs) = (xs \<noteq> [])"
| "py_truthy (JObj kvs) = (kvs \<noteq> [])"

fun type_name :: "json \<Rightarrow> string" where
  "type_name JNull = ''NoneType''"
| "type_name (JBool b) = ''bool''"
| "type_name (JInt i) = ''int''"
| "type_name (JFloat r) = ''float''"
| "type_name (JStr s) = ''str''"
| "type_name (JArr xs) = ''list''"
| "type_name (JObj kvs) = ''dict''"

definition quoted :: "string \<Rightarrow> string" where
  \<comment> \<open>a word between single quotes, as in the messages of the interpreter\<close>
  "quoted w = [CHR 0x27] @ w @ [CHR 0x27]"

definition repr_char :: "char \<Rightarrow> char \<Rightarrow> string" where
  \<comment> \<open>one character inside \<open>repr\<close> of a \<open>str\<close> that is quoted with \<open>quote\<close>\<close>
  "repr_char quote c =
     (let n = (of_char c :: nat)
      in if c = quote \<or> n = 0x5C then [CHR 0x5C, c]
         else if n = 0x09 then [CHR 0x5C, CHR ''t'']
         else if n = 0x0A then [CHR 0x5C, CHR ''n'']
         else if n = 0x0D then [CHR 0x5C, CHR ''r'']
         else if n < 32 \<or> n = 127 \<or> (128 \<le> n \<and> n \<le> 160) \<or> n = 173
              then [CHR 0x5C, CHR ''x'', hex_digit (n div 16), hex_digit (n mod 16)]
         else [c])"

definition repr_str :: "string \<Rightarrow> string" where
  \<comment> \<open>\<open>repr(s)\<close>: double quotes only when \<open>s\<close> has a single quote and no double quote\<close>
  "repr_str s =
     (let quote = (if CHR 0x27 \<in> set s \<and> CHR 0x22 \<notin> set s then CHR 0x22 else CHR 0x27)
      in quote # concat (map (repr_char quote) s) @ [quote])"

fun py_repr :: "json \<Rightarrow> string" where
  "py_repr JNull = ''None''"
| "py_repr (JBool b) = (if b then ''True'' else ''False'')"
| "py_repr (JInt i) = str_int i"
| "py_repr (JFloat r) = r"
| "py_repr (JStr s) = repr_str s"
| "py_repr (JArr xs) = ''['' @ join '', '' (map py_repr xs) @ '']''"
| "py_repr (JObj kvs) =
     ''{'' @ join '', '' (map (\<lambda>(k, v). repr_str k @ '': '' @ py_repr v) kvs) @ ''}''"

definition py_str :: "json \<Rightarrow> string" where
  \<comment> \<open>\<open>str(x)\<close>\<close>
  "py_str x = (case x of JStr s \<Rightarrow> s | _ \<Rightarrow> py_repr x)"

definition py_getitem :: "json \<Rightarrow> string \<Rightarrow> exn + json" where
  \<comment> \<open>\<open>x[name]\<close> for a string \<open>name\<close>\<close>
  "py_getitem x name =
     (case x of
        JObj kvs \<Rightarrow> (case map_of kvs name of
                      None \<Rightarrow> Inl (KeyError (repr_str name))
                    | Some v \<Rightarrow> Inr v)
      | JArr xs \<Rightarrow> Inl (TypeError ''list indices must be integers or slices, not str'')
      | JStr s \<Rightarrow> Inl (TypeError ''string indices must be integers, not str'')
      | _ \<Rightarrow> Inl (TypeError (quoted (type_name x) @ '' object is not subscriptable'')))"

definition py_get :: "json \<Rightarrow> string \<Rightarrow> exn + json" where
  \<comment> \<open>\<open>x.get(name)\<close>\<close>
  "py_get x name =
     (case x of
        JObj kvs \<Rightarrow> (case map_of kvs name of None \<Rightarrow> Inr JNull | Some v \<Rightarrow> Inr v)
      | _ \<Rightarrow> Inl (AttributeError (quoted (type_name x) @ '' object has no attribute '' @ quoted ''get'')))"

definition py_items :: "json \<Rightarrow> exn + (string \<times> json) list" where
  \<comment> \<open>\<open>x.items()\<close>\<close>
  "py_items x =
     (case x of
        JObj kvs \<Rightarrow> Inr kvs
      | _ \<Rightarrow> Inl (AttributeError (quoted (type_name x) @ '' object has no attribute '' @ quoted ''items'')))"

definition py_iter :: "json \<Rightarrow> exn + json list" where
  \<comment> \<open>the elements \<open>for item in x\<close> runs over\<close>
  "py_iter x =
     (case x of
        JArr xs \<Rightarrow> Inr xs
      | JObj kvs \<Rightarrow> Inr (map (\<lambda>(k, v). JStr k) kvs)
      | JStr s \<Rightarrow> Inr (map (\<lambda>c. JStr [c]) s)
      | _ \<Rightarrow> Inl (TypeError (quoted (type_name x) @ '' object is not iterable'')))"

definition py_lower :: "json \<Rightarrow> exn + string" where
  \<comment> \<open>\<open>x.lower()\<close>\<close>
  "py_lower x =
     (case x of
        JStr s \<Rightarrow> Inr (lower s)
      | _ \<Rightarrow> Inl (AttributeError (quoted (type_name x) @ '' object has no attribute '' @ quoted ''lower'')))"

definition hashable :: "json \<Rightarrow> bool" where
  "hashable x = (case x of JArr xs \<Rightarrow> False | JObj kvs \<Rightarrow> False | _ \<Rightarrow> True)"

definition exn_str :: "exn \<Rightarrow> string" where
  \<comment> \<open>\<open>str(exc)\<close>\<close>
  "exn_str e =
     (case e of
        ValueError m \<Rightarrow> m | RuntimeError m \<Rightarrow> m | KeyError m \<Rightarrow> m | TypeError m \<Rightarrow> m
      | AttributeError m \<Rightarrow> m | IndexError m \<Rightarrow> m
      | HttpError status body \<Rightarrow> ''HTTP '' @ str_nat status @ '': '' @ body
      | FileExistsError m \<Rightarrow> m | FileNotFoundError m \<Rightarrow> m
      | IsADirectoryError m \<Rightarrow> m | NotADirectoryError m \<Rightarrow> m)"

text \<open>
  The conversions of the standard library whose results the seeder only passes on are
  parameters: \<open>json.loads\<close>, \<open>float\<close> (applied to a string or to a decoded value) and
  \<open>int\<close>, each with the exception it raises on bad input.
\<close>

record builtins =
  json_loads :: "string \<Rightarrow> exn + json"
  float_conv :: "json \<Rightarrow> exn + json"
  int_conv :: "string \<Rightarrow> exn + int"

subsection \<open>Reading the CSV file\<close>

type_synonym raw_row = "string \<rightharpoonup> string"

record row =
  site_key :: string
  site_name :: string
  site_slug :: string
  site_description :: string
  site_currency :: string
  site_language :: string
  site_config :: string
  category_name :: string
  filter_definitions :: json
  product_name :: string
  product_description :: string
  product_images :: "string list"
  product_sku :: string
  product_status :: string
  product_scheduled_publish_at :: "string option"
  product_filters :: json
  price_amount :: json
  price_currency :: string
  price_effective_from :: "string option"
  price_effective_to :: "string option"
  inventory_initial_quantity :: int

definition field :: "raw_row \<Rightarrow> string \<Rightarrow> string" where
  \<comment> \<open>\<open>(raw.get(name) or "").strip()\<close>\<close>
  "field raw name = strip (case raw name of None \<Rightarrow> [] | Some v \<Rightarrow> v)"

definition field_or_none :: "raw_row \<Rightarrow> string \<Rightarrow> string option" where
  \<comment> \<open>\<open>(raw.get(name) or "").strip() or None\<close>\<close>
  "field_or_none raw name = (if field raw name = [] then None else Some (field raw name))"

definition parse_json_field :: "builtins \<Rightarrow> raw_row \<Rightarrow> string \<Rightarrow> exn + json" where
  "parse_json_field lib raw field_name =
     (let v = field raw field_name in if v \<noteq> [] then json_loads lib v else Inr JNull)"

definition upper :: "string \<Rightarrow> string" where
  \<comment> \<open>\<open>str.upper\<close>; a code point whose upper case is not below 256 stays as it is, which
      no comparison with an ASCII word can tell\<close>
  "upper s = map upper_char s"

definition images_of :: "raw_row \<Rightarrow> string list" where
  "images_of raw =
     map strip (filter (\<lambda>item. strip item \<noteq> [])
       (split_sep CHR ''|'' (case raw ''product_images'' of None \<Rightarrow> [] | Some v \<Rightarrow> v)))"

definition status_of :: "raw_row \<Rightarrow> string" where
  \<comment> \<open>\<open>(raw.get("product_status") or "DRAFT").strip() or "DRAFT"\<close>\<close>
  "status_of raw =
     (let given = (case raw ''product_status'' of None \<Rightarrow> [] | Some v \<Rightarrow> v);
          s = strip (if given = [] then ''DRAFT'' else given)
      in if s = [] then ''DRAFT'' else s)"

definition missing_fields :: "row \<Rightarrow> string list" where
  \<comment> \<open>the keys of \<open>normalized\<close>, in its order, whose value is \<open>""\<close> or \<open>[]\<close>, the five
      exempted keys apart; a float, an int and \<open>None\<close> equal neither\<close>
  "missing_fields r =
     map fst (filter snd
       [(''site_key'', site_key r = []),
        (''site_name'', site_name r = []),
        (''site_slug'', site_slug r = []),
        (''site_description'', site_description r = []),
        (''site_currency'', site_currency r = []),
        (''site_language'', site_language r = []),
        (''site_config'', site_config r = []),
        (''category_name'', category_name r = []),
        (''product_name'', product_name r = []),
        (''product_description'', product_description r = []),
        (''product_images'', product_images r = []),
        (''product_sku'', product_sku r = []),
        (''product_status'', product_status r = []),
        (''price_currency'', price_currency r = [])])"

definition normalize_row :: "builtins \<Rightarrow> raw_row \<Rightarrow> exn + row" where
  "normalize_row lib raw =
     (case parse_json_field lib raw ''filter_definitions'' of
        Inl e \<Rightarrow> Inl e
      | Inr fd \<Rightarrow>
     (case parse_json_field lib raw ''product_filters'' of
        Inl e \<Rightarrow> Inl e
      | Inr pf \<Rightarrow>
     (let filters_payload = (if py_truthy fd then fd else JArr []);
          product_filters_v = (if py_truthy pf then pf else JObj []);
          images = images_of raw
      in if images = []
         then Inl (ValueError (''product_images must include at least one URL separated by ''
                               @ quoted ''|''))
         else
     (case (if field raw ''price_amount'' \<noteq> []
            then map_sum id Some (float_conv lib (JStr (field raw ''price_amount'')))
            else Inr None) of
        Inl e \<Rightarrow> Inl e
      | Inr price_amount_v \<Rightarrow>
     (case (if field raw ''inventory_initial_quantity'' \<noteq> []
            then map_sum id Some (int_conv lib (field raw ''inventory_initial_quantity''))
            else Inr None) of
        Inl e \<Rightarrow> Inl e
      | Inr inventory_v \<Rightarrow>
     (let status = status_of raw;
          scheduled = field_or_none raw ''product_scheduled_publish_at'';
          currency = field raw ''price_currency''
      in if upper status = ''SCHEDULED'' \<and> scheduled = None
         then Inl (ValueError
                ''product_scheduled_publish_at is required when product_status is SCHEDULED'')
         else if price_amount_v = None \<or> currency = []
         then Inl (ValueError ''price_amount and price_currency are required'')
         else if inventory_v = None
         then Inl (ValueError ''inventory_initial_quantity is required'')
         else
           (let normalized =
                  \<lparr>site_key = field raw ''site_key'',
                   site_name = field raw ''site_name'',
                   site_slug = field raw ''site_slug'',
                   site_description = field raw ''site_description'',
                   site_currency = field raw ''site_currency'',
                   site_language = field raw ''site_language'',
                   site_config = field raw ''site_config'',
                   category_name = field raw ''category_name'',
                   filter_definitions = filters_payload,
                   product_name = field raw ''product_name'',
                   product_description = field raw ''product_description'',
                   product_images = images,
                   product_sku = field raw ''product_sku'',
                   product_status = status,
                   product_scheduled_publish_at = scheduled,
                   product_filters = product_filters_v,
                   price_amount = the price_amount_v,
                   price_currency = currency,
                   price_effective_from = field_or_none raw ''price_effective_from'',
                   price_effective_to = field_or_none raw ''price_effective_to'',
                   inventory_initial_quantity = the inventory_v\<rparr>
            in if missing_fields normalized \<noteq> []
               then Inl (ValueError (''Missing required fields: ''
                                     @ join '', '' (missing_fields normalized)))
               else Inr normalized)))))))"

fun load_loop :: "builtins \<Rightarrow> nat \<Rightarrow> row list \<Rightarrow> raw_row list \<Rightarrow> exn + row list" where
  \<comment> \<open>the loop over \<open>enumerate(reader, start=2)\<close>\<close>
  "load_loop lib index rows [] = Inr rows"
| "load_loop lib index rows (raw # rest) =
     (case normalize_row lib raw of
        Inl exc \<Rightarrow> Inl (ValueError (''Failed to parse CSV row '' @ str_nat index @ '': ''
                                    @ exn_str exc))
      | Inr r \<Rightarrow> load_loop lib (Suc index) (rows @ [r]) rest)"

definition load_rows :: "builtins \<Rightarrow> string \<Rightarrow> raw_row list option \<Rightarrow> exn + row list" where
  \<comment> \<open>the file is \<open>None\<close> when \<open>csv_path\<close> does not exist, and otherwise the rows
      \<open>csv.DictReader\<close> yields\<close>
  "load_rows lib csv_path file =
     (case file of
        None \<Rightarrow> Inl (FileNotFoundError (''CSV file not found: '' @ csv_path))
      | Some raws \<Rightarrow> load_loop lib 2 [] raws)"

subsection \<open>The HTTP client\<close>

text \<open>
  The network is the outside world: it answers a request, given the requests sent before
  it. An answer is what \<open>urlopen\<close> does: a response, an \<open>HTTPError\<close> with status and
  body, or a \<open>URLError\<close>. The body of a response is only ever read through
  \<open>HttpResponse.json()\<close>, so a response carries what that call gives: the decoded
  document (the empty dictionary for an empty body), or the message of the decoding
  error.
\<close>

datatype http_method = GET | POST

record request =
  req_method :: http_method
  req_url :: string
  req_params :: "(string \<times> string) list"
  req_body :: "json option"
  req_headers :: "(string \<times> string) list"
  req_timeout :: nat

datatype reply =
    HttpResponse nat "string + json"
  | HTTPError nat string
  | URLError string

type_synonym network = "request list \<Rightarrow> request \<Rightarrow> reply"

record seeder =
  base_url :: string
  owner_id :: string
  dry_run :: bool
  http :: network
  sent :: "request list"
  site_cache :: "string \<rightharpoonup> json"
  category_cache :: "string \<times> string \<rightharpoonup> json"
  filter_cache :: "string \<times> json \<rightharpoonup> json \<times> json \<times> json"

text \<open>
  \<open>sent\<close> is the log of the requests made so far, in order. A \<open>CreatedFilter\<close> is the
  triple of its \<open>id\<close>, \<open>key\<close> and \<open>type\<close>. A method of \<open>Seeder\<close> takes the state and
  returns its result, or the exception it raises, with the state it leaves behind.
\<close>

definition filter_id :: "json \<times> json \<times> json \<Rightarrow> json" where
  "filter_id f = fst f"

definition filter_key :: "json \<times> json \<times> json \<Rightarrow> json" where
  "filter_key f = fst (snd f)"

definition filter_type :: "json \<times> json \<times> json \<Rightarrow> json" where
  "filter_type f = snd (snd f)"

definition then_do ::
  "(exn + 'a) \<times> seeder \<Rightarrow> ('a \<Rightarrow> seeder \<Rightarrow> (exn + 'b) \<times> seeder) \<Rightarrow> (exn + 'b) \<times> seeder" where
  \<comment> \<open>run the next statement unless the previous one raised\<close>
  "then_do m f = (case m of (Inl e, s) \<Rightarrow> (Inl e, s) | (Inr x, s) \<Rightarrow> f x s)"

definition Seeder_init :: "string \<Rightarrow> string \<Rightarrow> bool \<Rightarrow> network \<Rightarrow> seeder" where
  "Seeder_init gateway_base_url owner dry net =
     \<lparr>base_url = rstrip_chars ''/'' gateway_base_url, owner_id = owner, dry_run = dry,
      http = net, sent = [], site_cache = Map.empty, category_cache = Map.empty,
      filter_cache = Map.empty\<rparr>"

definition url_of :: "seeder \<Rightarrow> string \<Rightarrow> string" where
  \<comment> \<open>\<open>Seeder._url\<close>\<close>
  "url_of s path = base_url s @ (if take 1 path = ''/'' then path else ''/'' @ path)"

definition build_request ::
  "http_method \<Rightarrow> string \<Rightarrow> (string \<times> json) list \<Rightarrow> json option \<Rightarrow> (string \<times> string) list
   \<Rightarrow> nat \<Rightarrow> request" where
  \<comment> \<open>the request \<open>SimpleHttpClient.request\<close> hands to \<open>urlopen\<close>; the query string is
      \<open>urlencode\<close> of \<open>req_params\<close>, from which \<open>None\<close> values are dropped\<close>
  "build_request m url params json_body headers timeout =
     (let filtered = map (\<lambda>(k, v). (k, py_str v)) (filter (\<lambda>(k, v). v \<noteq> JNull) params);
          accept = [(''Accept'', ''application/json'')];
          typed = (if json_body \<noteq> None
                   then AList.update ''Content-Type'' ''application/json'' accept else accept)
      in \<lparr>req_method = m, req_url = url, req_params = filtered, req_body = json_body,
          req_headers = foldl (\<lambda>h (k, v). AList.update k v h) typed headers,
          req_timeout = timeout\<rparr>)"

definition client_request ::
  "seeder \<Rightarrow> http_method \<Rightarrow> string \<Rightarrow> (string \<times> json) list \<Rightarrow> json option
   \<Rightarrow> (string \<times> string) list \<Rightarrow> nat \<Rightarrow> (exn + (string + json)) \<times> seeder" where
  \<comment> \<open>\<open>SimpleHttpClient.request\<close>\<close>
  "client_request s m url params json_body headers timeout =
     (let req = build_request m url params json_body headers timeout;
          s' = s\<lparr>sent := sent s @ [req]\<rparr>
      in case http s (sent s) req of
           HttpResponse status body \<Rightarrow> (Inr body, s')
         | HTTPError code body \<Rightarrow> (Inl (HttpError code body), s')
         | URLError reason \<Rightarrow>
             (Inl (RuntimeError (''Failed to reach '' @ url @ '': '' @ reason)), s'))"

definition response_json :: "string + json \<Rightarrow> exn + json" where
  \<comment> \<open>\<open>HttpResponse.json()\<close>\<close>
  "response_json body = (case body of Inl m \<Rightarrow> Inl (ValueError m) | Inr doc \<Rightarrow> Inr doc)"

definition get_json ::
  "seeder \<Rightarrow> string \<Rightarrow> (string \<times> json) list \<Rightarrow> nat \<Rightarrow> (exn + json) \<times> seeder" where
  \<comment> \<open>\<open>self.http.get(url, params=params, timeout=timeout).json()\<close>\<close>
  "get_json s url params timeout =
     then_do (client_request s GET url params None [] timeout)
       (\<lambda>response s1. (response_json response, s1))"

definition post_json ::
  "seeder \<Rightarrow> string \<Rightarrow> json \<Rightarrow> (string \<times> string) list \<Rightarrow> nat \<Rightarrow> (exn + json) \<times> seeder" where
  \<comment> \<open>\<open>self.http.post(url, json_body=payload, headers=headers, timeout=timeout).json()\<close>\<close>
  "post_json s url payload headers timeout =
     then_do (client_request s POST url [] (Some payload) headers timeout)
       (\<lambda>response s1. (response_json response, s1))"

subsection \<open>Sites\<close>

definition fetch_site_by_slug :: "seeder \<Rightarrow> string \<Rightarrow> (exn + json) \<times> seeder" where
  "fetch_site_by_slug s slug =
     (case client_request s GET (url_of s (''/api/sites/slug/'' @ slug)) [] None [] 15 of
        (Inr response, s1) \<Rightarrow> (response_json response, s1)
      | (Inl (HttpError status body), s1) \<Rightarrow>
          if status = 404 \<or> (status = 400 \<and> contains ''site not found'' (lower body))
          then (Inr JNull, s1)
          else (Inl (HttpError status body), s1)
      | (Inl e, s1) \<Rightarrow> (Inl e, s1))"

definition site_cache_key :: "row \<Rightarrow> string" where
  \<comment> \<open>\<open>row["site_key"] or row["site_slug"]\<close>\<close>
  "site_cache_key r = (if site_key r \<noteq> [] then site_key r else site_slug r)"

definition site_payload :: "row \<Rightarrow> json" where
  "site_payload r =
     JObj [(''name'', JStr (site_name r)), (''slug'', JStr (site_slug r)),
           (''description'', JStr (site_description r)), (''currency'', JStr (site_currency r)),
           (''language'', JStr (site_language r)), (''config'', JStr (site_config r))]"

definition create_site :: "seeder \<Rightarrow> row \<Rightarrow> (exn + json) \<times> seeder" where
  \<comment> \<open>the \<open>else\<close> branch of \<open>_ensure_site\<close>: the creation and its \<open>except HttpError\<close>\<close>
  "create_site s r =
     (if dry_run s then (Inr (JObj [(''id'', JStr (''dry-'' @ site_cache_key r))]), s)
      else (case client_request s POST (url_of s ''/api/sites'') [] (Some (site_payload r))
                   [(''X-Owner-Id'', owner_id s)] 30 of
              (Inr response, s1) \<Rightarrow>
                (case response_json response of
                   Inl e \<Rightarrow> (Inl e, s1)
                 | Inr site \<Rightarrow>
                     (case py_getitem site ''id'' of
                        Inl e \<Rightarrow> (Inl e, s1)
                      | Inr _ \<Rightarrow>
                          (case py_getitem site ''slug'' of
                             Inl e \<Rightarrow> (Inl e, s1)
                           | Inr _ \<Rightarrow> (Inr site, s1))))
            | (Inl (HttpError status body), s1) \<Rightarrow>
                if status = 400 \<and> contains ''slug'' (lower body)
                then fetch_site_by_slug s1 (site_slug r)
                else (Inl (HttpError status body), s1)
            | (Inl e, s1) \<Rightarrow> (Inl e, s1)))"

definition ensure_site :: "seeder \<Rightarrow> row \<Rightarrow> (exn + json) \<times> seeder" where
  "ensure_site s r =
     (let cache_key = site_cache_key r
      in case site_cache s cache_key of
           Some site \<Rightarrow> (Inr site, s)
         | None \<Rightarrow>
             then_do (if dry_run s then (Inr JNull, s) else fetch_site_by_slug s (site_slug r))
               (\<lambda>found s1.
                  then_do (if py_truthy found
                           then (case py_getitem found ''id'' of
                                   Inl e \<Rightarrow> (Inl e, s1)
                                 | Inr _ \<Rightarrow> (Inr found, s1))
                           else create_site s1 r)
                    (\<lambda>site s2.
                       if \<not> py_truthy site
                       then (Inl (RuntimeError (''Unable to ensure site '' @ quoted (site_name r))), s2)
                       else (Inr site, s2\<lparr>site_cache := (site_cache s2)(cache_key \<mapsto> site)\<rparr>))))"

subsection \<open>Categories and filters\<close>

definition filter_cache_key :: "json \<Rightarrow> json \<Rightarrow> string \<times> json" where
  \<comment> \<open>\<open>Seeder._filter_cache_key\<close>\<close>
  "filter_cache_key category_id k = (lower (py_str category_id), k)"

fun refresh_loop :: "seeder \<Rightarrow> json list \<Rightarrow> (exn + unit) \<times> seeder" where
  "refresh_loop s [] = (Inr (), s)"
| "refresh_loop s (entry # rest) =
     (case py_getitem entry ''categoryId'' of
        Inl e \<Rightarrow> (Inl e, s)
      | Inr cid \<Rightarrow>
     (case py_getitem entry ''key'' of
        Inl e \<Rightarrow> (Inl e, s)
      | Inr k \<Rightarrow>
     (case py_getitem entry ''id'' of
        Inl e \<Rightarrow> (Inl e, s)
      | Inr i \<Rightarrow>
     (case py_getitem entry ''type'' of
        Inl e \<Rightarrow> (Inl e, s)
      | Inr t \<Rightarrow>
          if \<not> hashable k
          then (Inl (TypeError (''unhashable type: '' @ quoted (type_name k))), s)
          else refresh_loop
                 (s\<lparr>filter_cache := (filter_cache s)(filter_cache_key cid k \<mapsto> (i, k, t))\<rparr>)
                 rest))))"

definition refresh_filters :: "seeder \<Rightarrow> json \<Rightarrow> (exn + unit) \<times> seeder" where
  "refresh_filters s site_id =
     (if site_id = JNull \<or> dry_run s then (Inr (), s)
      else then_do (get_json s (url_of s ''/api/catalog/filters'')
                      [(''siteId'', JStr (py_str site_id))] 30)
             (\<lambda>doc s1. case py_iter doc of
                          Inl e \<Rightarrow> (Inl e, s1)
                        | Inr entries \<Rightarrow> refresh_loop s1 entries))"

definition fetch_categories :: "seeder \<Rightarrow> json \<Rightarrow> (exn + json) \<times> seeder" where
  "fetch_categories s site_id =
     get_json s (url_of s ''/api/catalog/products/categories'')
       [(''siteId'', JStr (py_str site_id))] 30"

fun cache_categories :: "seeder \<Rightarrow> json \<Rightarrow> json list \<Rightarrow> (exn + unit) \<times> seeder" where
  \<comment> \<open>the loop of \<open>_ensure_category\<close> over the categories fetched\<close>
  "cache_categories s site_id [] = (Inr (), s)"
| "cache_categories s site_id (category # rest) =
     (case py_getitem category ''name'' of
        Inl e \<Rightarrow> (Inl e, s)
      | Inr nm \<Rightarrow>
          (case py_lower nm of
             Inl e \<Rightarrow> (Inl e, s)
           | Inr l \<Rightarrow>
               cache_categories
                 (s\<lparr>category_cache := (category_cache s)((py_str site_id, l) \<mapsto> category)\<rparr>)
                 site_id rest))"

definition create_category :: "seeder \<Rightarrow> json \<Rightarrow> string \<Rightarrow> (exn + json) \<times> seeder" where
  "create_category s site_id name =
     (if dry_run s
      then (Inr (JObj [(''id'', JStr (''dry-cat-'' @ name)), (''name'', JStr name)]), s)
      else then_do (post_json s (url_of s ''/api/catalog/products/categories'')
                      (JObj [(''siteId'', JStr (py_str site_id)), (''name'', JStr name)]) [] 30)
             (\<lambda>category s1. case py_getitem category ''id'' of
                               Inl e \<Rightarrow> (Inl e, s1)
                             | Inr _ \<Rightarrow> (Inr category, s1)))"

definition ensure_category :: "seeder \<Rightarrow> json \<Rightarrow> string \<Rightarrow> json \<Rightarrow> (exn + json) \<times> seeder" where
  "ensure_category s site_id name definitions =
     (let cache_key = (py_str site_id, lower name)
      in case category_cache s cache_key of
           Some category \<Rightarrow> (Inr category, s)
         | None \<Rightarrow>
             then_do (if dry_run s then (Inr (), s)
                      else then_do (fetch_categories s site_id)
                             (\<lambda>existing s1. case py_iter existing of
                                               Inl e \<Rightarrow> (Inl e, s1)
                                             | Inr cs \<Rightarrow> cache_categories s1 site_id cs))
               (\<lambda>_ s2.
                  case category_cache s2 cache_key of
                    Some category \<Rightarrow> (Inr category, s2)
                  | None \<Rightarrow>
                      then_do (create_category s2 site_id name)
                        (\<lambda>category s3.
                           let s4 = s3\<lparr>category_cache := (category_cache s3)(cache_key \<mapsto> category)\<rparr>
                           in if py_truthy definitions \<and> \<not> dry_run s4
                              then then_do (refresh_filters s4 site_id)
                                     (\<lambda>_ s5. (Inr category, s5))
                              else (Inr category, s4))))"

definition filter_payload :: "json \<Rightarrow> json \<Rightarrow> json \<Rightarrow> json \<Rightarrow> json \<Rightarrow> exn + json" where
  \<comment> \<open>the payload of a filter creation; \<open>k\<close> is \<open>definition["key"]\<close>, read before\<close>
  "filter_payload site_id category_id definition k t =
     (case py_get definition ''siteId'' of
        Inl e \<Rightarrow> Inl e
      | Inr given \<Rightarrow>
     (case py_get definition ''displayName'' of
        Inl e \<Rightarrow> Inl e
      | Inr display_name \<Rightarrow>
     (case py_get definition ''unit'' of
        Inl e \<Rightarrow> Inl e
      | Inr unit_v \<Rightarrow>
     (case py_get definition ''values'' of
        Inl e \<Rightarrow> Inl e
      | Inr values_v \<Rightarrow>
     (case py_get definition ''minValue'' of
        Inl e \<Rightarrow> Inl e
      | Inr min_value \<Rightarrow>
     (case py_get definition ''maxValue'' of
        Inl e \<Rightarrow> Inl e
      | Inr max_value \<Rightarrow>
          Inr (JObj [(''siteId'', if py_truthy given then given else JStr (py_str site_id)),
                     (''categoryId'', JStr (py_str category_id)),
                     (''key'', k), (''type'', t),
                     (''displayName'', display_name), (''unit'', unit_v),
                     (''values'', values_v), (''minValue'', min_value),
                     (''maxValue'', max_value)])))))))"

definition create_filter ::
  "seeder \<Rightarrow> json \<Rightarrow> json \<Rightarrow> json \<Rightarrow> json \<Rightarrow> (exn + json \<times> json \<times> json) \<times> seeder" where
  \<comment> \<open>the creation of one filter in \<open>_ensure_filter_definitions\<close>\<close>
  "create_filter s site_id category_id definition k =
     (case py_getitem definition ''type'' of
        Inl e \<Rightarrow> (Inl e, s)
      | Inr t \<Rightarrow>
     (case filter_payload site_id category_id definition k t of
        Inl e \<Rightarrow> (Inl e, s)
      | Inr payload \<Rightarrow>
          then_do (post_json s (url_of s ''/api/catalog/filters'') payload [] 30)
            (\<lambda>created s1.
               case py_getitem created ''id'' of
                 Inl e \<Rightarrow> (Inl e, s1)
               | Inr i \<Rightarrow>
              (case py_getitem created ''key'' of
                 Inl e \<Rightarrow> (Inl e, s1)
               | Inr ck \<Rightarrow>
              (case py_getitem created ''type'' of
                 Inl e \<Rightarrow> (Inl e, s1)
               | Inr ct \<Rightarrow> (Inr (i, ck, ct), s1))))))"

fun definitions_loop :: "seeder \<Rightarrow> json \<Rightarrow> json \<Rightarrow> json list \<Rightarrow> (exn + unit) \<times> seeder" where
  \<comment> \<open>the loop of \<open>_ensure_filter_definitions\<close>\<close>
  "definitions_loop s site_id category_id [] = (Inr (), s)"
| "definitions_loop s site_id category_id (definition # rest) =
     (case py_getitem definition ''key'' of
        Inl e \<Rightarrow> (Inl e, s)
      | Inr k \<Rightarrow>
          if \<not> hashable k
          then (Inl (TypeError (''unhashable type: '' @ quoted (type_name k))), s)
          else if filter_cache s (filter_cache_key category_id k) \<noteq> None
          then definitions_loop s site_id category_id rest
          else if dry_run s
          then (case py_getitem definition ''type'' of
                  Inl e \<Rightarrow> (Inl e, s)
                | Inr t \<Rightarrow>
                    definitions_loop
                      (s\<lparr>filter_cache := (filter_cache s)(filter_cache_key category_id k \<mapsto>
                            (JStr (''dry-filter-'' @ py_str k), k, t))\<rparr>)
                      site_id category_id rest)
          else (case create_filter s site_id category_id definition k of
                  (Inl e, s1) \<Rightarrow> (Inl e, s1)
                | (Inr created_filter, s1) \<Rightarrow>
                    definitions_loop
                      (s1\<lparr>filter_cache := (filter_cache s1)(filter_cache_key category_id k \<mapsto>
                             created_filter)\<rparr>)
                      site_id category_id rest))"

definition ensure_filter_definitions ::
  "seeder \<Rightarrow> json \<Rightarrow> json \<Rightarrow> json \<Rightarrow> (exn + unit) \<times> seeder" where
  "ensure_filter_definitions s site_id category_id definitions =
     (if \<not> py_truthy definitions then (Inr (), s)
      else (case py_iter definitions of
              Inl e \<Rightarrow> (Inl e, s)
            | Inr ds \<Rightarrow> definitions_loop s site_id category_id ds))"

fun map_assignments ::
  "builtins \<Rightarrow> seeder \<Rightarrow> json \<Rightarrow> json list \<Rightarrow> (string \<times> json) list \<Rightarrow> exn + json list" where
  \<comment> \<open>the loop of \<open>_ensure_filters_and_map_assignments\<close> over \<open>product_filters\<close>\<close>
  "map_assignments lib s category_id assignments [] = Inr assignments"
| "map_assignments lib s category_id assignments ((k, v) # rest) =
     (case filter_cache s (filter_cache_key category_id (JStr k)) of
        None \<Rightarrow> Inl (RuntimeError (''No filter '' @ quoted k @ '' found for category ''
                                    @ py_str category_id))
      | Some cached_filter \<Rightarrow>
          if filter_type cached_filter = JStr ''QUANTITATIVE''
          then (case float_conv lib v of
                  Inl e \<Rightarrow> Inl e
                | Inr number \<Rightarrow>
                    map_assignments lib s category_id
                      (assignments @ [JObj [(''filterId'', JStr (py_str (filter_id cached_filter))),
                                            (''numericValue'', number)]]) rest)
          else map_assignments lib s category_id
                 (assignments @ [JObj [(''filterId'', JStr (py_str (filter_id cached_filter))),
                                       (''textValue'', JStr (py_str v))]]) rest)"

definition ensure_filters_and_map_assignments ::
  "builtins \<Rightarrow> seeder \<Rightarrow> json \<Rightarrow> json \<Rightarrow> row \<Rightarrow> (exn + json list) \<times> seeder" where
  "ensure_filters_and_map_assignments lib s site_id category_id r =
     then_do (if \<not> dry_run s then refresh_filters s site_id else (Inr (), s))
       (\<lambda>_ s1.
          then_do (ensure_filter_definitions s1 site_id category_id (filter_definitions r))
            (\<lambda>_ s2. case py_items (product_filters r) of
                       Inl e \<Rightarrow> (Inl e, s2)
                     | Inr items \<Rightarrow> (map_assignments lib s2 category_id [] items, s2)))"

subsection \<open>Products, prices and inventory\<close>

definition product_payload :: "json \<Rightarrow> json \<Rightarrow> row \<Rightarrow> json list \<Rightarrow> json" where
  "product_payload site_id category_id r filter_assignments =
     JObj ([(''siteId'', JStr (py_str site_id)),
            (''name'', JStr (product_name r)),
            (''description'', JStr (product_description r)),
            (''images'', JArr (map JStr (product_images r))),
            (''categoryIds'', JArr [JStr (py_str category_id)]),
            (''sku'', JStr (product_sku r)),
            (''status'', JStr (product_status r)),
            (''filters'', JArr filter_assignments)]
           @ (if truthy_str (product_scheduled_publish_at r)
              then [(''scheduledPublishAt'', JStr (the (product_scheduled_publish_at r)))]
              else []))"

definition create_product ::
  "seeder \<Rightarrow> json \<Rightarrow> json \<Rightarrow> row \<Rightarrow> json list \<Rightarrow> (exn + string) \<times> seeder" where
  "create_product s site_id category_id r filter_assignments =
     (if dry_run s then (Inr (''dry-product-'' @ product_sku r), s)
      else then_do (post_json s (url_of s ''/api/catalog/products'')
                      (product_payload site_id category_id r filter_assignments) [] 30)
             (\<lambda>doc s1. case py_get doc ''id'' of
                          Inl e \<Rightarrow> (Inl e, s1)
                        | Inr product_id \<Rightarrow> (Inr (py_str product_id), s1)))"

definition price_payload :: "string \<Rightarrow> row \<Rightarrow> json" where
  "price_payload product_id r =
     JObj ([(''productId'', JStr product_id),
            (''amount'', price_amount r),
            (''currency'', JStr (price_currency r))]
           @ (if truthy_str (price_effective_from r)
              then [(''effectiveFrom'', JStr (the (price_effective_from r)))] else [])
           @ (if truthy_str (price_effective_to r)
              then [(''effectiveTo'', JStr (the (price_effective_to r)))] else []))"

definition create_price :: "seeder \<Rightarrow> string \<Rightarrow> row \<Rightarrow> (exn + unit) \<times> seeder" where
  "create_price s product_id r =
     (if dry_run s then (Inr (), s)
      else then_do (post_json s (url_of s ''/api/prices'') (price_payload product_id r) [] 30)
             (\<lambda>doc s1. case py_get doc ''id'' of
                          Inl e \<Rightarrow> (Inl e, s1)
                        | Inr _ \<Rightarrow> (Inr (), s1)))"

definition inventory_payload :: "string \<Rightarrow> row \<Rightarrow> json" where
  "inventory_payload product_id r =
     JObj [(''productId'', JStr product_id),
           (''initialQuantity'', JInt (inventory_initial_quantity r))]"

definition create_inventory :: "seeder \<Rightarrow> string \<Rightarrow> row \<Rightarrow> (exn + unit) \<times> seeder" where
  "create_inventory s product_id r =
     (if dry_run s then (Inr (), s)
      else then_do (post_json s (url_of s ''/api/inventory'') (inventory_payload product_id r) [] 30)
             (\<lambda>doc s1. case py_get doc ''id'' of
                          Inl e \<Rightarrow> (Inl e, s1)
                        | Inr _ \<Rightarrow> (Inr (), s1)))"

subsection \<open>Processing the rows\<close>

definition process_row :: "builtins \<Rightarrow> seeder \<Rightarrow> row \<Rightarrow> (exn + unit) \<times> seeder" where
  \<comment> \<open>the body of the loop of \<open>Seeder.process_rows\<close>\<close>
  "process_row lib s r =
     then_do (ensure_site s r) (\<lambda>site s1.
     then_do (py_getitem site ''id'', s1) (\<lambda>site_id s1.
     then_do (ensure_category s1 site_id (category_name r) (filter_definitions r)) (\<lambda>category s2.
     then_do (py_getitem category ''id'', s2) (\<lambda>category_id s2.
     then_do (ensure_filters_and_map_assignments lib s2 site_id category_id r) (\<lambda>filter_assignments s3.
     then_do (create_product s3 site_id category_id r filter_assignments) (\<lambda>product_id s4.
     then_do (create_price s4 product_id r) (\<lambda>_ s5.
     create_inventory s5 product_id r)))))))"

fun process_rows :: "builtins \<Rightarrow> seeder \<Rightarrow> row list \<Rightarrow> (exn + unit) \<times> seeder" where
  "process_rows lib s [] = (Inr (), s)"
| "process_rows lib s (r # rest) =
     then_do (process_row lib s r) (\<lambda>_ s'. process_rows lib s' rest)"

definition seed_main ::
  "builtins \<Rightarrow> string \<Rightarrow> raw_row list option \<Rightarrow> string \<Rightarrow> string \<Rightarrow> bool \<Rightarrow> network
   \<Rightarrow> (exn + unit) \<times> request list" where
  \<comment> \<open>\<open>main\<close> once the arguments are parsed: the result and the requests that were sent\<close>
  "seed_main lib csv_path file gateway_base_url owner dry net =
     (case load_rows lib csv_path file of
        Inl e \<Rightarrow> (Inl e, [])
      | Inr rows \<Rightarrow>
          (case process_rows lib (Seeder_init gateway_base_url owner dry net) rows of
             (result, s) \<Rightarrow> (result, sent s)))"

subsection \<open>The requests of a run, as the statements read them\<close>

text \<open>
  Each request belongs to the step of \<open>process_rows\<close> whose endpoint it addresses:
  sites 1, categories 2, filters 3, products 4, prices 5, inventory 6.
\<close>

definition stage :: "string \<Rightarrow> request \<Rightarrow> nat" where
  "stage base q =
     (let u = req_url q
      in if u = base @ ''/api/sites'' \<or> take (length base + 16) u = base @ ''/api/sites/slug/''
         then 1
         else if u = base @ ''/api/catalog/products/categories'' then 2
         else if u = base @ ''/api/catalog/filters'' then 3
         else if u = base @ ''/api/catalog/products'' then 4
         else if u = base @ ''/api/prices'' then 5
         else if u = base @ ''/api/inventory'' then 6
         else 0)"

definition caches_grow :: "seeder \<Rightarrow> seeder \<Rightarrow> bool" where
  \<comment> \<open>no key leaves a cache\<close>
  "caches_grow s s' =
     (dom (site_cache s) \<subseteq> dom (site_cache s')
      \<and> dom (category_cache s) \<subseteq> dom (category_cache s')
      \<and> dom (filter_cache s) \<subseteq> dom (filter_cache s'))"

definition emits :: "nat \<Rightarrow> nat \<Rightarrow> seeder \<Rightarrow> seeder \<Rightarrow> bool" where
  \<comment> \<open>from \<open>s\<close> to \<open>s'\<close> the configuration is kept, the caches grow, and the requests
      added to the log are of the stages \<open>lo\<close> to \<open>hi\<close>, in the order of the stages; a
      dry run adds none\<close>
  "emits lo hi s s' =
     (base_url s' = base_url s \<and> owner_id s' = owner_id s \<and> dry_run s' = dry_run s
      \<and> http s' = http s \<and> caches_grow s s'
      \<and> (\<exists>new. sent s' = sent s @ new
            \<and> sorted (map (stage (base_url s)) new)
            \<and> (\<forall>q \<in> set new. lo \<le> stage (base_url s) q \<and> stage (base_url s) q \<le> hi)
            \<and> (dry_run s \<longrightarrow> new = [])))"

subsection \<open>Rows with a missing required field\<close>

text \<open>
  A raw CSV row lacks a required field when one of the site, category and product
  columns is empty or blank, when it names no product image, or when the price amount,
  the price currency or the initial quantity is empty or blank.
\<close>

definition required_text_fields :: "string list" where
  "required_text_fields =
     [''site_key'', ''site_name'', ''site_slug'', ''site_description'', ''site_currency'',
      ''site_language'', ''site_config'', ''category_name'', ''product_name'',
      ''product_description'', ''product_sku'']"

definition lacks_required_field :: "raw_row \<Rightarrow> bool" where
  "lacks_required_field raw =
     ((\<exists>name \<in> set required_text_fields. field raw name = [])
      \<or> images_of raw = []
      \<or> field raw ''price_amount'' = []
      \<or> field raw ''price_currency'' = []
      \<or> field raw ''inventory_initial_quantity'' = [])"


section \<open>Sample inputs\<close>

text \<open>
  A repository with two submodules, as \<open>git submodule status --recursive\<close> prints
  them, and an image-metadata file with an entry for one of them.
\<close>

definition sample_run :: subprocess where
  "sample_run args =
     \<lparr>returncode = 0,
      stdout = '' 1234567890abcdef services/api (heads/main)\<newline>+fedcba9876543210 infra/db (v1)\<newline>'',
      stderr = ''''\<rparr>"

definition sample_commits :: "(string \<times> string) list" where
  "sample_commits = [(''services/api'', ''1234567890abcdef''), (''infra/db'', ''fedcba9876543210'')]"

definition sample_metadata :: "string \<rightharpoonup> ImageMetadata" where
  "sample_metadata =
     [''db'' \<mapsto> \<lparr>repository = ''registry.local/db'', tag = Some ''v1'', digest = None,
                  tag_prefix = Some ''rel-''\<rparr>]"

definition sample_locks :: "(string \<times> ServiceLock) list" where
  "sample_locks =
     [(''api'', \<lparr>submodule_path = ''services/api'', git_sha = ''1234567890abcdef'',
                image = \<lparr>repository = ''ghcr.io/shopifake/api'', tag = Some ''main-1234567'',
                          digest = None, tag_prefix = None\<rparr>,
                lock_notes = None\<rparr>),
      (''db'', \<lparr>submodule_path = ''infra/db'', git_sha = ''fedcba9876543210'',
               image = \<lparr>repository = ''registry.local/db'', tag = Some ''rel-fedcba9'',
                         digest = None, tag_prefix = None\<rparr>,
               lock_notes = None\<rparr>)]"


definition sample_api_lock :: ServiceLock where
  "sample_api_lock =
     \<lparr>submodule_path = ''services/api'', git_sha = ''1234567890abcdef'',
      image = \<lparr>repository = ''ghcr.io/shopifake/api'', tag = Some ''main-1234567'',
                digest = None, tag_prefix = None\<rparr>,
      lock_notes = None\<rparr>"




definition sample_fs :: filesystem where
  "sample_fs = [[] \<mapsto> Dir, [''locks''] \<mapsto> Dir]"


text \<open>The same file system with a lock file already written.\<close>

definition sample_fs_locked :: filesystem where
  "sample_fs_locked = [[] \<mapsto> Dir, [''locks''] \<mapsto> Dir, [''locks'', ''lock.yml''] \<mapsto> File ''old'']"











text \<open>
  A standard library that decodes nothing, for rows without JSON columns, and one raw
  CSV row with the row it normalises to.
\<close>

definition sample_lib :: builtins where
  "sample_lib =
     \<lparr>json_loads = (\<lambda>text. Inl (ValueError ''Expecting value: line 1 column 1 (char 0)'')),
      float_conv = (\<lambda>v. case v of JStr t \<Rightarrow> Inr (JFloat t)
                          | _ \<Rightarrow> Inl (TypeError ''float() argument must be a string or a real number'')),
      int_conv = (\<lambda>t. if t = ''5'' then Inr 5
                       else Inl (ValueError (''invalid literal for int() with base 10: ''
                                             @ repr_str t)))\<rparr>"

definition sample_raw :: raw_row where
  "sample_raw =
     [''site_key'' \<mapsto> ''shop'', ''site_name'' \<mapsto> ''Shop'', ''site_slug'' \<mapsto> ''shop'',
      ''site_description'' \<mapsto> ''A shop'', ''site_currency'' \<mapsto> ''EUR'',
      ''site_language'' \<mapsto> ''en'', ''site_config'' \<mapsto> ''{}'', ''category_name'' \<mapsto> ''Shoes'',
      ''product_name'' \<mapsto> ''Boot'', ''product_description'' \<mapsto> ''A boot'',
      ''product_images'' \<mapsto> ''http://img/1.png | http://img/2.png'', ''product_sku'' \<mapsto> ''B-1'',
      ''price_amount'' \<mapsto> ''9.99'', ''price_currency'' \<mapsto> ''EUR'',
      ''inventory_initial_quantity'' \<mapsto> '' 5 '']"

definition sample_row :: row where
  "sample_row =
     \<lparr>site_key = ''shop'', site_name = ''Shop'', site_slug = ''shop'',
      site_description = ''A shop'', site_currency = ''EUR'', site_language = ''en'',
      site_config = ''{}'', category_name = ''Shoes'', filter_definitions = JArr [],
      product_name = ''Boot'', product_description = ''A boot'',
      product_images = [''http://img/1.png'', ''http://img/2.png''], product_sku = ''B-1'',
      product_status = ''DRAFT'', product_scheduled_publish_at = None,
      product_filters = JObj [], price_amount = JFloat ''9.99'', price_currency = ''EUR'',
      price_effective_from = None, price_effective_to = None,
      inventory_initial_quantity = 5\<rparr>"


section \<open>Properties of the lock generator\<close>

subsection \<open>The loop of \<open>build_service_locks\<close>\<close>

lemma sample_list_submodules: "list_submodules sample_run [''services'', ''infra''] = Inr sample_commits"
  unfolding sample_commits_def by code_simp

lemma collect_keys:
  "fst ` set (collect_locks md flt reg pfx locks commits) =
     fst ` set locks \<union> {path_name p | p s. (p, s) \<in> set commits \<and> \<not> (filter_given flt \<and> path_name p \<notin> set (the flt))}"
  by (induction md flt reg pfx locks commits rule: collect_locks.induct) (auto simp: dom_update)

lemma collect_entry:
  "map_of (collect_locks md flt reg pfx locks commits) name = Some l \<Longrightarrow>
     map_of locks name = Some l \<or>
     (\<exists>(p, s) \<in> set commits. path_name p = name \<and> l = resolve_lock md reg pfx p s)"
  by (induction md flt reg pfx locks commits rule: collect_locks.induct) (auto simp: update_conv split: if_splits)

lemma collect_distinct:
  "distinct (map fst locks) \<Longrightarrow> distinct (map fst (collect_locks md flt reg pfx locks commits))"
  by (induction md flt reg pfx locks commits rule: collect_locks.induct) (auto simp: distinct_update)

lemma build_Inr:
  assumes "list_submodules run scope = Inr commits"
      and "build_service_locks run scope md flt reg pfx = Inr locks"
  shows "locks = collect_locks md flt reg pfx [] commits"
  using assms by (auto simp: build_service_locks_def locks_of_commits_def Let_def split: if_splits)

lemma lock_origin:
  assumes "list_submodules run scope = Inr commits"
      and "build_service_locks run scope md flt reg pfx = Inr locks"
      and "map_of locks name = Some l"
  shows "\<exists>(p, s) \<in> set commits. path_name p = name \<and> l = resolve_lock md reg pfx p s"
  using collect_entry[of md flt reg pfx "[]" commits name l] build_Inr[OF assms(1,2)] assms(3)
  by simp

lemma lock_present:
  assumes "list_submodules run scope = Inr commits"
      and "build_service_locks run scope md flt reg pfx = Inr locks"
      and "(path, sha) \<in> set commits"
      and "\<not> filter_given flt \<or> path_name path \<in> set (the flt)"
  shows "\<exists>l. map_of locks (path_name path) = Some l"
proof -
  have "path_name path \<in> fst ` set locks"
    using assms(3,4) unfolding build_Inr[OF assms(1,2)] collect_keys by auto
  then show ?thesis
    by (metis domD dom_map_of_conv_image_fst)
qed


lemma resolve_lock_fields:
  "submodule_path (resolve_lock md reg pfx path sha) = path"
  "git_sha (resolve_lock md reg pfx path sha) = sha"
  "lock_notes (resolve_lock md reg pfx path sha) = None"
  "repository (image (resolve_lock md reg pfx path sha)) =
     (case md (path_name path) of Some m \<Rightarrow> repository m | None \<Rightarrow> reg @ ''/'' @ path_name path)"
  "digest (image (resolve_lock md reg pfx path sha)) =
     (case md (path_name path) of Some m \<Rightarrow> digest m | None \<Rightarrow> None)"
  "tag (image (resolve_lock md reg pfx path sha)) =
     (let pre = (case md (path_name path) of Some m \<Rightarrow> tag_prefix m | None \<Rightarrow> pfx);
          explicit = (case md (path_name path) of Some m \<Rightarrow> tag m | None \<Rightarrow> None)
      in if truthy_str pre then Some (the pre @ take 7 sha)
         else if explicit = None then Some (take 7 sha) else explicit)"
  by (simp_all add: resolve_lock_def Let_def split: option.splits)

lemma sample_build:
  "build_service_locks sample_run [''services'', ''infra''] sample_metadata None
     ''ghcr.io/shopifake'' (Some ''main-'') = Inr sample_locks"
  unfolding sample_locks_def sample_metadata_def by code_simp

lemma missing_services_set:
  "missing_services (Some names) locks = sorted_list_of_set (set names - fst ` set locks)"
proof -
  have "set (filter (\<lambda>name. name \<notin> set (map fst locks)) names) = set names - fst ` set locks"
    by auto
  then show ?thesis
    unfolding missing_services_def
    by (metis option.sel sorted_list_of_set_sort_remdups)
qed













text \<open>
  Claim C10. For a service with an image-metadata entry, a non-empty \<open>tag_prefix\<close>
  decides the tag: it is the prefix followed by the first seven characters of the SHA,
  whatever the entry's own \<open>tag\<close>. Only without a \<open>tag_prefix\<close> is an explicit tag
  used as it is, and the bare short SHA when there is no tag either.
\<close>

theorem tag_prefix_precedence:
  assumes "list_submodules run scope = Inr commits"
      and "build_service_locks run scope md flt reg pfx = Inr locks"
      and "map_of locks name = Some l"
      and "md name = Some m"
  shows "(truthy_str (tag_prefix m) \<longrightarrow>
            tag (image l) = Some (the (tag_prefix m) @ take 7 (git_sha l)))
       \<and> (\<not> truthy_str (tag_prefix m) \<longrightarrow>
            tag (image l) = (case tag m of Some t \<Rightarrow> Some t | None \<Rightarrow> Some (take 7 (git_sha l))))"
proof -
  obtain p s where ps: "(p, s) \<in> set commits" "path_name p = name"
      "l = resolve_lock md reg pfx p s"
    using lock_origin[OF assms(1-3)] by blast
  have some: "md (path_name p) = Some m"
    using ps(2) assms(4) by simp
  show ?thesis
    unfolding ps(3) resolve_lock_fields some by (cases "tag m") (simp_all add: Let_def)
qed

theorem tag_prefix_precedence_witness:
  "list_submodules sample_run [''services'', ''infra''] = Inr sample_commits
   \<and> build_service_locks sample_run [''services'', ''infra''] sample_metadata None
        ''ghcr.io/shopifake'' (Some ''main-'') = Inr sample_locks
   \<and> sample_metadata ''db'' = Some \<lparr>repository = ''registry.local/db'', tag = Some ''v1'',
        digest = None, tag_prefix = Some ''rel-''\<rparr>
   \<and> (\<exists>l. map_of sample_locks ''db'' = Some l \<and> tag (image l) = Some ''rel-fedcba9'')"
proof -
  let ?l = "\<lparr>submodule_path = ''infra/db'', git_sha = ''fedcba9876543210'',
               image = \<lparr>repository = ''registry.local/db'', tag = Some ''rel-fedcba9'',
                         digest = None, tag_prefix = None\<rparr>,
               lock_notes = None\<rparr>"
  have c: "map_of sample_locks ''db'' = Some ?l"
    by (simp add: sample_locks_def)
  have d: "sample_metadata ''db'' = Some \<lparr>repository = ''registry.local/db'', tag = Some ''v1'',
        digest = None, tag_prefix = Some ''rel-''\<rparr>"
    by (simp add: sample_metadata_def)
  from tag_prefix_precedence[OF sample_list_submodules sample_build c d]
  show ?thesis
    using sample_list_submodules sample_build c d by (simp add: truthy_str_def)
qed


text \<open>
  Claim C9. With a non-empty \<open>services_filter\<close>, \<open>build_service_locks\<close> raises exactly
  when a requested name matches no submodule, and the \<open>ValueError\<close> lists the missing
  names in sorted order; otherwise the mapping it returns has exactly the requested
  names that occur among the submodules as its keys.
\<close>

theorem services_filter_exact:
  assumes "list_submodules run scope = Inr commits"
      and "names \<noteq> []"
  shows "(set names \<subseteq> path_name ` fst ` set commits \<longrightarrow>
            (\<exists>locks. build_service_locks run scope md (Some names) reg pfx = Inr locks
                     \<and> fst ` set locks = set names \<inter> path_name ` fst ` set commits))
       \<and> (\<not> set names \<subseteq> path_name ` fst ` set commits \<longrightarrow>
            build_service_locks run scope md (Some names) reg pfx =
              Inl (ValueError (''Requested services missing from submodules: ''
                     @ join '', '' (sorted_list_of_set (set names - path_name ` fst ` set commits)))))"
proof -
  let ?locks = "collect_locks md (Some names) reg pfx [] commits"
  have given: "filter_given (Some names)"
    using assms(2) by (simp add: filter_given_def)
  have keys: "fst ` set ?locks = set names \<inter> path_name ` fst ` set commits"
    unfolding collect_keys using given by force
  have miss: "missing_services (Some names) ?locks
                = sorted_list_of_set (set names - path_name ` fst ` set commits)"
    unfolding missing_services_set keys by (simp add: Diff_Int)
  have fin: "finite (set names - path_name ` fst ` set commits)" by simp
  have empty_iff: "missing_services (Some names) ?locks = [] \<longleftrightarrow>
                     set names \<subseteq> path_name ` fst ` set commits"
    unfolding miss using fin by (metis Diff_eq_empty_iff sorted_list_of_set_eq_Nil_iff)
  show ?thesis
    using given keys miss empty_iff
    by (simp add: build_service_locks_def assms(1) locks_of_commits_def Let_def)
qed

theorem services_filter_exact_witness:
  "list_submodules sample_run [''services'', ''infra''] = Inr sample_commits
   \<and> [''zeta'', ''api'', ''alpha''] \<noteq> []
   \<and> \<not> set [''zeta'', ''api'', ''alpha''] \<subseteq> path_name ` fst ` set sample_commits
   \<and> build_service_locks sample_run [''services'', ''infra''] sample_metadata
        (Some [''zeta'', ''api'', ''alpha'']) ''ghcr.io/shopifake'' None
      = Inl (ValueError ''Requested services missing from submodules: alpha, zeta'')
   \<and> set [''api''] \<subseteq> path_name ` fst ` set sample_commits
   \<and> (\<exists>locks. build_service_locks sample_run [''services'', ''infra''] sample_metadata
          (Some [''api'']) ''ghcr.io/shopifake'' None = Inr locks
          \<and> fst ` set locks = {''api''})"
proof -
  have n: "path_name ` fst ` set sample_commits = {''api'', ''db''}"
    unfolding sample_commits_def by code_simp
  have a: "\<not> set [''zeta'', ''api'', ''alpha''] \<subseteq> path_name ` fst ` set sample_commits"
    unfolding n by simp
  have b: "set [''api''] \<subseteq> path_name ` fst ` set sample_commits"
    unfolding n by simp
  have e1: "build_service_locks sample_run [''services'', ''infra''] sample_metadata
        (Some [''zeta'', ''api'', ''alpha'']) ''ghcr.io/shopifake'' None
      = Inl (ValueError ''Requested services missing from submodules: alpha, zeta'')"
    unfolding sample_metadata_def by code_simp
  have e2: "\<exists>locks. build_service_locks sample_run [''services'', ''infra''] sample_metadata
          (Some [''api'']) ''ghcr.io/shopifake'' None = Inr locks
          \<and> fst ` set locks = {''api''}"
    using services_filter_exact[OF sample_list_submodules, of "[''api'']" sample_metadata
        "''ghcr.io/shopifake''" None] b unfolding n by auto
  show ?thesis
    using sample_list_submodules a b e1 e2 by simp
qed


text \<open>
  Claim C7, as stated, fails: an entry made by \<open>build_service_locks\<close> never has a
  \<open>notes\<close> field, and its image has a \<open>digest\<close> only when the metadata file gives
  one. The entry for the sample submodule \<open>services/api\<close> has neither.
\<close>

theorem serialized_lock_fields_counterexample:
  "build_service_locks sample_run [''services'', ''infra''] sample_metadata None
     ''ghcr.io/shopifake'' (Some ''main-'') = Inr sample_locks
   \<and> map_of sample_locks ''api'' = Some sample_api_lock
   \<and> ServiceLock_to_mapping sample_api_lock =
        [(''submodule_path'', JStr ''services/api''),
         (''git_sha'', JStr ''1234567890abcdef''),
         (''image'', JObj [(''repository'', JStr ''ghcr.io/shopifake/api''),
                          (''tag'', JStr ''main-1234567'')])]
   \<and> map_of (ServiceLock_to_mapping sample_api_lock) ''notes'' = None
   \<and> map_of (ImageMetadata_to_mapping (image sample_api_lock)) ''digest'' = None"
  using sample_build
  by (simp add: sample_locks_def sample_api_lock_def ServiceLock_to_mapping_def
        ImageMetadata_to_mapping_def truthy_str_def)


text \<open>
  Claim C7, amended. Every serialised entry made by \<open>build_service_locks\<close> is a
  mapping with exactly the fields \<open>submodule_path\<close>, \<open>git_sha\<close> and \<open>image\<close>, in this
  order, and never \<open>notes\<close> (the function stores \<open>notes=None\<close>, and \<open>to_mapping\<close> skips
  empty values). The image mapping has \<open>repository\<close>, then \<open>tag\<close> unless the resolved tag
  is the empty string, then \<open>digest\<close> when the service's metadata entry has a non-empty
  digest.
\<close>

theorem serialized_lock_fields:
  assumes "list_submodules run scope = Inr commits"
      and "build_service_locks run scope md flt reg pfx = Inr locks"
      and "map_of locks name = Some l"
  shows "map fst (ServiceLock_to_mapping l) = [''submodule_path'', ''git_sha'', ''image'']
       \<and> map_of (ServiceLock_to_mapping l) ''submodule_path'' = Some (JStr (submodule_path l))
       \<and> map_of (ServiceLock_to_mapping l) ''git_sha'' = Some (JStr (git_sha l))
       \<and> map_of (ServiceLock_to_mapping l) ''image'' = Some (JObj (ImageMetadata_to_mapping (image l)))
       \<and> tag (image l) \<noteq> None
       \<and> map fst (ImageMetadata_to_mapping (image l)) =
            [''repository'']
            @ (if tag (image l) \<noteq> Some [] then [''tag''] else [])
            @ (if truthy_str (case md name of None \<Rightarrow> None | Some m \<Rightarrow> digest m)
               then [''digest''] else [])"
proof -
  obtain p s where ps: "(p, s) \<in> set commits" "path_name p = name"
      "l = resolve_lock md reg pfx p s"
    using lock_origin[OF assms] by blast
  have nt: "\<not> truthy_str (lock_notes l)"
    unfolding ps(3) resolve_lock_fields by (simp add: truthy_str_def)
  have tg: "tag (image l) \<noteq> None"
    unfolding ps(3) resolve_lock_fields by (auto simp: Let_def)
  have dg: "digest (image l) = (case md name of None \<Rightarrow> None | Some m \<Rightarrow> digest m)"
    unfolding ps(3) resolve_lock_fields ps(2) by (simp split: option.splits)
  have tr: "truthy_str (tag (image l)) \<longleftrightarrow> tag (image l) \<noteq> Some []"
    using tg by (auto simp: truthy_str_def)
  show ?thesis
    using nt tg
    by (simp add: ServiceLock_to_mapping_def ImageMetadata_to_mapping_def tr dg)
qed

theorem serialized_lock_fields_witness:
  "list_submodules sample_run [''services'', ''infra''] = Inr sample_commits
   \<and> build_service_locks sample_run [''services'', ''infra''] sample_metadata None
        ''ghcr.io/shopifake'' (Some ''main-'') = Inr sample_locks
   \<and> map_of sample_locks ''api'' = Some sample_api_lock
   \<and> map fst (ServiceLock_to_mapping sample_api_lock) = [''submodule_path'', ''git_sha'', ''image'']
   \<and> map fst (ImageMetadata_to_mapping (image sample_api_lock)) = [''repository'', ''tag'']"
proof -
  have c: "map_of sample_locks ''api'' = Some sample_api_lock"
    by (simp add: sample_locks_def sample_api_lock_def)
  have t: "tag (image sample_api_lock) = Some ''main-1234567''"
    by (simp add: sample_api_lock_def)
  have m: "sample_metadata ''api'' = None"
    by (simp add: sample_metadata_def)
  from serialized_lock_fields[OF sample_list_submodules sample_build c]
  show ?thesis
    using sample_list_submodules sample_build c by (simp add: t m truthy_str_def)
qed


subsection \<open>Directories and \<open>dump_lock\<close>\<close>

lemma walk_None_iff:
  "walk fs seen rest = None \<longleftrightarrow> (\<forall>n<length rest. fs (seen @ take n rest) = Some Dir)"
proof (induction rest arbitrary: seen)
  case Nil
  show ?case by simp
next
  case (Cons c rest)
  have split: "(\<forall>n<Suc (length rest). fs (seen @ take n (c # rest)) = Some Dir) \<longleftrightarrow>
        fs seen = Some Dir \<and> (\<forall>n<length rest. fs ((seen @ [c]) @ take n rest) = Some Dir)"
    by (auto simp: less_Suc_eq_0_disj)
  show ?case
    using Cons.IH[of "seen @ [c]"] split
    by (cases "fs seen") (auto split: node.splits)
qed

lemma walk_no_file:
  "(\<forall>n<length rest. \<forall>c. fs (seen @ take n rest) \<noteq> Some (File c)) \<Longrightarrow>
     walk fs seen rest = None \<or> (\<exists>m. walk fs seen rest = Some (FileNotFoundError m))"
proof (induction rest arbitrary: seen)
  case Nil
  show ?case by simp
next
  case (Cons c rest)
  have here: "\<forall>d. fs seen \<noteq> Some (File d)"
    using Cons.prems by (metis append_Nil2 length_greater_0_conv list.discI take_0)
  have "\<forall>n<length rest. \<forall>d. fs ((seen @ [c]) @ take n rest) \<noteq> Some (File d)"
  proof (intro allI impI)
    fix n d assume "n < length rest"
    then have "Suc n < length (c # rest)" by simp
    from Cons.prems[rule_format, OF this, of d] show "fs ((seen @ [c]) @ take n rest) \<noteq> Some (File d)"
      by simp
  qed
  from Cons.IH[OF this] here show ?case
    by (cases "fs seen") (auto split: node.splits)
qed

lemma mkdir_exist_ok_dir:
  assumes "walk fs [] p = None" and "\<forall>c. fs p \<noteq> Some (File c)"
  shows "\<exists>fs'. mkdir_exist_ok fs p = Inr fs' \<and> fs' p = Some Dir \<and> (\<forall>q. q \<noteq> p \<longrightarrow> fs' q = fs q)"
proof (cases "fs p")
  case None
  then show ?thesis using assms(1) by (simp add: mkdir_exist_ok_def os_mkdir_def)
next
  case (Some nd)
  then have "fs p = Some Dir" using assms(2) by (cases nd) auto
  then show ?thesis using assms(1) by (simp add: mkdir_exist_ok_def os_mkdir_def is_dir_def)
qed

lemma mkdir_parents_ok:
  "no_file_on fs p \<Longrightarrow>
     \<exists>fs'. mkdir_parents fs p = Inr fs'
          \<and> (\<forall>n\<le>length p. fs' (take n p) = Some Dir)
          \<and> (\<forall>q. (\<forall>n\<le>length p. q \<noteq> take n p) \<longrightarrow> fs' q = fs q)"
proof (induction p arbitrary: fs rule: rev_induct)
  case Nil
  have nf: "\<forall>c. fs [] \<noteq> Some (File c)"
    using Nil by (simp add: no_file_on_def)
  have w: "walk fs [] [] = None" by simp
  from mkdir_exist_ok_dir[OF w nf]
  obtain fs' where f: "mkdir_exist_ok fs [] = Inr fs'" "fs' [] = Some Dir"
      "\<forall>q. q \<noteq> [] \<longrightarrow> fs' q = fs q" by blast
  have "mkdir_parents fs [] = Inr fs'"
    using f(1) by (subst mkdir_parents.simps)
      (auto simp: mkdir_exist_ok_def split: sum.splits exn.splits if_splits)
  then show ?case using f by auto
next
  case (snoc c q)
  let ?p = "q @ [c]"
  have nfp: "\<forall>d. fs ?p \<noteq> Some (File d)"
    using snoc.prems unfolding no_file_on_def by (metis order_refl take_all)
  have nfq: "no_file_on fs q"
    unfolding no_file_on_def
  proof (intro allI impI)
    fix n d assume "n \<le> length q"
    then have "n \<le> length ?p" "take n ?p = take n q" by simp_all
    then show "fs (take n q) \<noteq> Some (File d)"
      using snoc.prems unfolding no_file_on_def by metis
  qed
  have strict: "\<forall>n<length ?p. \<forall>d. fs ([] @ take n ?p) \<noteq> Some (File d)"
  proof (intro allI impI)
    fix n d assume "n < length ?p"
    then have "n \<le> length ?p" by simp
    then have "fs (take n ?p) \<noteq> Some (File d)"
      using snoc.prems unfolding no_file_on_def by blast
    then show "fs ([] @ take n ?p) \<noteq> Some (File d)"
      unfolding append_Nil .
  qed
  from walk_no_file[OF strict]
  consider (ok) "walk fs [] ?p = None" | (missing) m where "walk fs [] ?p = Some (FileNotFoundError m)"
    by auto
  then show ?case
  proof cases
    case ok
    from mkdir_exist_ok_dir[OF ok nfp]
    obtain fs' where f: "mkdir_exist_ok fs ?p = Inr fs'" "fs' ?p = Some Dir"
        "\<forall>r. r \<noteq> ?p \<longrightarrow> fs' r = fs r" by blast
    have m: "mkdir_parents fs ?p = Inr fs'"
      using f(1) ok by (subst mkdir_parents.simps)
        (auto simp: mkdir_exist_ok_def os_mkdir_def split: sum.splits exn.splits if_splits)
    have pre: "\<forall>n<length ?p. fs (take n ?p) = Some Dir"
      using ok unfolding walk_None_iff by simp
    have all: "\<forall>n\<le>length ?p. fs' (take n ?p) = Some Dir"
    proof (intro allI impI)
      fix n assume n: "n \<le> length ?p"
      show "fs' (take n ?p) = Some Dir"
      proof (cases "n = length ?p")
        case True then show ?thesis using f(2) by simp
      next
        case False
        then have lt: "n < length ?p" using n by simp
        then have "take n ?p \<noteq> ?p"
          by (metis length_take min.absorb4 nat_neq_iff)
        then show ?thesis using f(3) pre lt by simp
      qed
    qed
    have frame: "\<forall>r. (\<forall>n\<le>length ?p. r \<noteq> take n ?p) \<longrightarrow> fs' r = fs r"
      using f(3) by (metis order_refl take_all)
    show ?thesis using m all frame by blast
  next
    case missing
    from snoc.IH[OF nfq]
    obtain fs1 where f1: "mkdir_parents fs q = Inr fs1"
        "\<forall>n\<le>length q. fs1 (take n q) = Some Dir"
        "\<forall>r. (\<forall>n\<le>length q. r \<noteq> take n q) \<longrightarrow> fs1 r = fs r" by blast
    have w1: "walk fs1 [] ?p = None"
      unfolding walk_None_iff using f1(2) by simp
    have notpre: "\<forall>n\<le>length q. ?p \<noteq> take n q"
      by (metis length_append_singleton length_take min.absorb4 min.cobounded2 not_less_eq_eq order_le_less)
    then have same: "fs1 ?p = fs ?p" using f1(3) by blast
    have nf1: "\<forall>d. fs1 ?p \<noteq> Some (File d)" using nfp same by simp
    from mkdir_exist_ok_dir[OF w1 nf1]
    obtain fs' where f: "mkdir_exist_ok fs1 ?p = Inr fs'" "fs' ?p = Some Dir"
        "\<forall>r. r \<noteq> ?p \<longrightarrow> fs' r = fs1 r" by blast
    have bl: "butlast ?p = q" by simp
    have m: "mkdir_parents fs ?p = Inr fs'"
      using f(1) f1(1) missing by (subst mkdir_parents.simps) (simp add: os_mkdir_def bl)
    have all: "\<forall>n\<le>length ?p. fs' (take n ?p) = Some Dir"
    proof (intro allI impI)
      fix n assume n: "n \<le> length ?p"
      show "fs' (take n ?p) = Some Dir"
      proof (cases "n = length ?p")
        case True then show ?thesis using f(2) by simp
      next
        case False
        then have lt: "n \<le> length q" using n by simp
        have tk: "take n ?p = take n q" using lt by simp
        have ne: "take n ?p \<noteq> ?p" unfolding tk using notpre lt by metis
        show ?thesis using f(3) f1(2) lt ne tk by metis
      qed
    qed
    have frame: "\<forall>r. (\<forall>n\<le>length ?p. r \<noteq> take n ?p) \<longrightarrow> fs' r = fs r"
    proof (intro allI impI)
      fix r assume r: "\<forall>n\<le>length ?p. r \<noteq> take n ?p"
      then have "r \<noteq> ?p" by (metis order_refl take_all)
      moreover have "\<forall>n\<le>length q. r \<noteq> take n q"
      proof (intro allI impI)
        fix n assume "n \<le> length q"
        then have "n \<le> length ?p" "take n ?p = take n q" by simp_all
        then show "r \<noteq> take n q" using r by metis
      qed
      ultimately show "fs' r = fs r" using f(3) f1(3) by simp
    qed
    show ?thesis using m all frame by blast
  qed
qed

lemma is_file_iff: "is_file n \<longleftrightarrow> (\<exists>c. n = Some (File c))"
  by (auto simp: is_file_def split: option.splits node.splits)

lemma dump_lock_refuses:
  "path_exists fs output \<Longrightarrow> \<not> force \<Longrightarrow>
     dump_lock fs payload output force =
       (Inl (FileExistsError (''Lock file already exists: '' @ path_str output)), fs)"
  by (simp add: dump_lock_def)

lemma dump_lock_writes:
  assumes go: "force \<or> \<not> path_exists fs output" and cw: "can_write fs output"
  shows "\<exists>fs'. dump_lock fs payload output force = (Inr output, fs')
           \<and> fs' output = Some (File (json_dump payload @ [CHR 0x0A]))
           \<and> (\<forall>n<length output. fs' (take n output) = Some Dir)
           \<and> (\<forall>q. (\<forall>n\<le>length output. q \<noteq> take n output) \<longrightarrow> fs' q = fs q)"
proof -
  let ?par = "butlast output"
  have ne: "output \<noteq> []" using cw by (simp add: can_write_def)
  have len: "length ?par < length output" using ne by simp
  have tk: "\<And>n. n \<le> length ?par \<Longrightarrow> take n ?par = take n output"
    using ne by (metis butlast_conv_take length_butlast min.absorb2 take_take min.commute)
  have nf: "no_file_on fs ?par"
    unfolding no_file_on_def
  proof (intro allI impI)
    fix n c assume n: "n \<le> length ?par"
    then have "n < length output" using len by simp
    then have "\<not> is_file (fs (take n output))" using cw by (simp add: can_write_def)
    then show "fs (take n ?par) \<noteq> Some (File c)"
      unfolding tk[OF n] is_file_iff by simp
  qed
  from mkdir_parents_ok[OF nf]
  obtain fs1 where f1: "mkdir_parents fs ?par = Inr fs1"
      "\<forall>n\<le>length ?par. fs1 (take n ?par) = Some Dir"
      "\<forall>q. (\<forall>n\<le>length ?par. q \<noteq> take n ?par) \<longrightarrow> fs1 q = fs q" by blast
  have pre1: "\<forall>n<length output. fs1 (take n output) = Some Dir"
  proof (intro allI impI)
    fix n assume "n < length output"
    then have n: "n \<le> length ?par" by simp
    show "fs1 (take n output) = Some Dir"
      using f1(2) n tk[OF n] by metis
  qed
  have w1: "walk fs1 [] output = None"
    unfolding walk_None_iff using pre1 by simp
  have notpre: "\<forall>n\<le>length ?par. output \<noteq> take n ?par"
  proof (intro allI impI)
    fix n assume "n \<le> length ?par"
    then have "length (take n ?par) < length output" using len by simp
    then show "output \<noteq> take n ?par" by (metis less_irrefl)
  qed
  have same: "fs1 output = fs output" using f1(3) notpre by blast
  have nd: "fs1 output \<noteq> Some Dir" using cw same by (simp add: can_write_def)
  let ?fs2 = "fs1(output \<mapsto> File (json_dump payload @ [CHR 0x0A]))"
  have ow: "open_write fs1 output (json_dump payload @ [CHR 0x0A]) = Inr ?fs2"
    using w1 nd by (simp add: open_write_def)
  have d: "dump_lock fs payload output force = (Inr output, ?fs2)"
    using go f1(1) ow by (auto simp: dump_lock_def)
  have a: "?fs2 output = Some (File (json_dump payload @ [CHR 0x0A]))" by simp
  have b: "\<forall>n<length output. ?fs2 (take n output) = Some Dir"
  proof (intro allI impI)
    fix n assume n: "n < length output"
    then have "length (take n output) < length output" by simp
    then have "take n output \<noteq> output" by (metis less_irrefl)
    then show "?fs2 (take n output) = Some Dir" using pre1 n by simp
  qed
  have c: "\<forall>q. (\<forall>n\<le>length output. q \<noteq> take n output) \<longrightarrow> ?fs2 q = fs q"
  proof (intro allI impI)
    fix q assume q: "\<forall>n\<le>length output. q \<noteq> take n output"
    then have "q \<noteq> output" by (metis order_refl take_all)
    moreover have "\<forall>n\<le>length ?par. q \<noteq> take n ?par"
    proof (intro allI impI)
      fix n assume n: "n \<le> length ?par"
      then have "n \<le> length output" using len by simp
      then show "q \<noteq> take n ?par" using q tk[OF n] by metis
    qed
    ultimately show "?fs2 q = fs q" using f1(3) by simp
  qed
  show ?thesis using d a b c by blast
qed


lemma os_mkdir_is_dir:
  assumes "os_mkdir fs p = Inr fs'"
  shows "is_dir fs' p \<and> fs p = None \<and> fs' = fs(p \<mapsto> Dir)"
proof -
  have w: "walk fs [] p = None" and n: "fs p = None" and f: "fs' = fs(p \<mapsto> Dir)"
    using assms by (auto simp: os_mkdir_def split: option.splits if_splits)
  have "\<forall>n<length p. fs' ([] @ take n p) = Some Dir"
  proof (intro allI impI)
    fix k assume k: "k < length p"
    then have "length (take k p) < length p" by simp
    then have "take k p \<noteq> p" by (metis less_irrefl)
    then show "fs' ([] @ take k p) = Some Dir"
      using w k unfolding walk_None_iff f by simp
  qed
  then have "walk fs' [] p = None" unfolding walk_None_iff .
  then show ?thesis using n f by (simp add: is_dir_def)
qed

lemma mkdir_exist_ok_Inr:
  assumes "mkdir_exist_ok fs p = Inr fs'"
  shows "is_dir fs' p \<and> (fs' = fs \<or> (fs p = None \<and> fs' = fs(p \<mapsto> Dir)))"
proof (cases "os_mkdir fs p")
  case (Inr fs1)
  then have "fs' = fs1" using assms by (simp add: mkdir_exist_ok_def)
  then show ?thesis unfolding \<open>fs' = fs1\<close> using os_mkdir_is_dir[OF Inr] by blast
next
  case (Inl e)
  then have "is_dir fs p \<and> fs' = fs"
    using assms by (auto simp: mkdir_exist_ok_def split: exn.splits if_splits)
  then show ?thesis by simp
qed

lemma mkdir_parents_Inr:
  "mkdir_parents fs p = Inr fs' \<Longrightarrow>
     is_dir fs' p \<and> (\<forall>q. fs' q = fs q \<or> (fs q = None \<and> fs' q = Some Dir))"
proof (induction fs p arbitrary: fs' rule: mkdir_parents.induct)
  case (1 fs p)
  show ?case
  proof (cases "os_mkdir fs p")
    case (Inr fs1)
    then have eq: "fs' = fs1" using 1(2) by (subst (asm) mkdir_parents.simps) simp
    have o: "is_dir fs1 p" "fs p = None" "fs1 = fs(p \<mapsto> Dir)"
      using os_mkdir_is_dir[OF Inr] by blast+
    have "\<forall>q. fs1 q = fs q \<or> (fs q = None \<and> fs1 q = Some Dir)"
    proof
      fix q show "fs1 q = fs q \<or> (fs q = None \<and> fs1 q = Some Dir)"
        using o(2) unfolding o(3) by (cases "q = p") simp_all
    qed
    then show ?thesis unfolding eq using o(1) by blast
  next
    case (Inl e)
    show ?thesis
    proof (cases "\<exists>m. e = FileNotFoundError m")
      case True
      then obtain m where m: "e = FileNotFoundError m" by blast
      have ne: "p \<noteq> []"
        using 1(2) Inl m by (subst (asm) mkdir_parents.simps) (auto split: if_splits)
      obtain fs1 where f1: "mkdir_parents fs (butlast p) = Inr fs1" "mkdir_exist_ok fs1 p = Inr fs'"
        using 1(2) Inl m ne by (subst (asm) mkdir_parents.simps) (auto split: sum.splits)
      have a: "\<forall>q. fs1 q = fs q \<or> (fs q = None \<and> fs1 q = Some Dir)"
        using 1(1)[OF Inl m ne f1(1)] by blast
      have b: "is_dir fs' p" "fs' = fs1 \<or> (fs1 p = None \<and> fs' = fs1(p \<mapsto> Dir))"
        using mkdir_exist_ok_Inr[OF f1(2)] by blast+
      have "\<forall>q. fs' q = fs q \<or> (fs q = None \<and> fs' q = Some Dir)"
      proof
        fix q
        from b(2) show "fs' q = fs q \<or> (fs q = None \<and> fs' q = Some Dir)"
        proof
          assume "fs' = fs1"
          then show ?thesis using a[rule_format, of q] by simp
        next
          assume u: "fs1 p = None \<and> fs' = fs1(p \<mapsto> Dir)"
          show ?thesis
          proof (cases "q = p")
            case True
            have "fs p = None" using a[rule_format, of p] u by auto
            moreover have "fs' p = Some Dir" using u by simp
            ultimately show ?thesis using True by simp
          next
            case False
            then have "fs' q = fs1 q" using u by simp
            then show ?thesis using a[rule_format, of q] by simp
          qed
        qed
      qed
      then show ?thesis using b(1) by blast
    next
      case False
      then have "is_dir fs p \<and> fs' = fs"
        using 1(2) Inl by (subst (asm) mkdir_parents.simps) (auto split: exn.splits if_splits)
      then show ?thesis by simp
    qed
  qed
qed

lemma mkdir_parents_fails:
  "\<exists>n\<le>length p. is_file (fs (take n p)) \<Longrightarrow> \<exists>e. mkdir_parents fs p = Inl e"
proof (rule ccontr)
  assume f: "\<exists>n\<le>length p. is_file (fs (take n p))" and "\<nexists>e. mkdir_parents fs p = Inl e"
  then obtain fs' where ok: "mkdir_parents fs p = Inr fs'"
    by (cases "mkdir_parents fs p") auto
  from mkdir_parents_Inr[OF ok]
  have d: "is_dir fs' p" and fr: "\<forall>q. fs' q = fs q \<or> (fs q = None \<and> fs' q = Some Dir)"
    by blast+
  from f obtain n c where n: "n \<le> length p" "fs (take n p) = Some (File c)"
    unfolding is_file_iff by blast
  have same: "fs' (take n p) = Some (File c)" using fr[rule_format, of "take n p"] n(2) by auto
  have "fs' (take n p) = Some Dir"
  proof (cases "n = length p")
    case True
    then show ?thesis using d by (simp add: is_dir_def)
  next
    case False
    then have "n < length p" using n(1) by simp
    moreover have "walk fs' [] p = None" using d by (simp add: is_dir_def)
    ultimately show ?thesis unfolding walk_None_iff by simp
  qed
  then show False using same by simp
qed

lemma dump_lock_fails:
  assumes go: "force \<or> \<not> path_exists fs output" and ncw: "\<not> can_write fs output"
  shows "\<exists>e fs'. dump_lock fs payload output force = (Inl e, fs')
      \<and> ((mkdir_parents fs (butlast output) = Inl e \<and> fs' = fs)
         \<or> (mkdir_parents fs (butlast output) = Inr fs'
            \<and> open_write fs' output (json_dump payload @ [CHR 0x0A]) = Inl e))
      \<and> (\<forall>q. fs' q = fs q \<or> (fs q = None \<and> fs' q = Some Dir))"
proof (cases "mkdir_parents fs (butlast output)")
  case (Inl e)
  then have "dump_lock fs payload output force = (Inl e, fs)"
    using go by (auto simp: dump_lock_def)
  then show ?thesis using Inl by blast
next
  case (Inr fs1)
  let ?par = "butlast output"
  from mkdir_parents_Inr[OF Inr]
  have d: "is_dir fs1 ?par" and fr: "\<forall>q. fs1 q = fs q \<or> (fs q = None \<and> fs1 q = Some Dir)"
    by blast+
  have nofile: "\<not> (\<exists>n\<le>length ?par. is_file (fs (take n ?par)))"
    using mkdir_parents_fails[of ?par fs] Inr by auto
  have pre: "\<forall>n\<le>length ?par. fs1 (take n ?par) = Some Dir"
  proof (intro allI impI)
    fix n assume n: "n \<le> length ?par"
    show "fs1 (take n ?par) = Some Dir"
    proof (cases "n = length ?par")
      case True then show ?thesis using d by (simp add: is_dir_def)
    next
      case False
      then have "n < length ?par" using n by simp
      moreover have "walk fs1 [] ?par = None" using d by (simp add: is_dir_def)
      ultimately show ?thesis unfolding walk_None_iff by simp
    qed
  qed
  have "\<exists>e. open_write fs1 output (json_dump payload @ [CHR 0x0A]) = Inl e"
  proof (cases "output = []")
    case True
    then have "fs1 output = Some Dir" using pre by simp
    then show ?thesis using True by (simp add: open_write_def)
  next
    case False
    have tk: "\<And>n. n < length output \<Longrightarrow> take n ?par = take n output"
      by (simp add: take_butlast)
    have w: "walk fs1 [] output = None"
      unfolding walk_None_iff
    proof (intro allI impI)
      fix n assume n: "n < length output"
      then have "n \<le> length ?par" by simp
      then show "fs1 ([] @ take n output) = Some Dir" using pre tk[OF n] by (metis append_Nil)
    qed
    have "\<forall>n<length output. \<not> is_file (fs (take n output))"
    proof (intro allI impI)
      fix n assume n: "n < length output"
      then have "n \<le> length ?par" by simp
      then show "\<not> is_file (fs (take n output))" using nofile tk[OF n] by metis
    qed
    then have "fs output = Some Dir" using ncw False by (simp add: can_write_def)
    then have "fs1 output = Some Dir" using fr[rule_format, of "output"] by auto
    then show ?thesis using w by (simp add: open_write_def)
  qed
  then obtain e where e: "open_write fs1 output (json_dump payload @ [CHR 0x0A]) = Inl e" by blast
  then have "dump_lock fs payload output force = (Inl e, fs1)"
    using go Inr by (auto simp: dump_lock_def)
  then show ?thesis using Inr e fr by blast
qed



text \<open>
  Claim C8, as stated, fails for some output paths: with \<open>force\<close> set and the output
  path an existing directory, \<open>dump_lock\<close> neither writes the payload nor returns the
  path; opening the directory for writing raises \<open>IsADirectoryError\<close>.
\<close>

theorem dump_lock_directory_counterexample:
  "fst (dump_lock sample_fs (JObj []) [''locks''] True) = Inl (IsADirectoryError ''locks'')
   \<and> snd (dump_lock sample_fs (JObj []) [''locks''] True) [''locks''] = Some Dir"
  unfolding sample_fs_def by code_simp


text \<open>
  Claim C8, amended. If something exists at the output path and \<open>force\<close> is false,
  \<open>dump_lock\<close> raises \<open>FileExistsError\<close> and the file system is unchanged. With
  \<open>force\<close> true, or when nothing exists at the path, there are two cases. If the path is
  not an existing directory (nor the working directory itself) and no regular file is in
  the way to it, \<open>dump_lock\<close> returns the path: the file then holds the serialised
  payload and a newline, every directory above it exists, and nothing off the way to it
  has changed. Otherwise \<open>dump_lock\<close> raises the error of \<open>mkdir\<close>, or that of
  \<open>open\<close> after \<open>mkdir\<close> has succeeded; no file is written, and the only change is
  the directories \<open>mkdir\<close> has made.
\<close>

theorem dump_lock_overwrite_guard:
  "(path_exists fs output \<and> \<not> force \<longrightarrow>
      dump_lock fs payload output force =
        (Inl (FileExistsError (''Lock file already exists: '' @ path_str output)), fs))
   \<and> ((force \<or> \<not> path_exists fs output) \<and> can_write fs output \<longrightarrow>
        (\<exists>fs'. dump_lock fs payload output force = (Inr output, fs')
           \<and> fs' output = Some (File (json_dump payload @ [CHR 0x0A]))
           \<and> (\<forall>n<length output. fs' (take n output) = Some Dir)
           \<and> (\<forall>q. (\<forall>n\<le>length output. q \<noteq> take n output) \<longrightarrow> fs' q = fs q)))
   \<and> ((force \<or> \<not> path_exists fs output) \<and> \<not> can_write fs output \<longrightarrow>
        (\<exists>e fs'. dump_lock fs payload output force = (Inl e, fs')
           \<and> ((mkdir_parents fs (butlast output) = Inl e \<and> fs' = fs)
              \<or> (mkdir_parents fs (butlast output) = Inr fs'
                 \<and> open_write fs' output (json_dump payload @ [CHR 0x0A]) = Inl e))
           \<and> (\<forall>q. fs' q = fs q \<or> (fs q = None \<and> fs' q = Some Dir))))"
proof (intro conjI impI)
  assume "path_exists fs output \<and> \<not> force"
  then show "dump_lock fs payload output force =
        (Inl (FileExistsError (''Lock file already exists: '' @ path_str output)), fs)"
    by (simp add: dump_lock_refuses)
next
  assume "(force \<or> \<not> path_exists fs output) \<and> can_write fs output"
  then show "\<exists>fs'. dump_lock fs payload output force = (Inr output, fs')
           \<and> fs' output = Some (File (json_dump payload @ [CHR 0x0A]))
           \<and> (\<forall>n<length output. fs' (take n output) = Some Dir)
           \<and> (\<forall>q. (\<forall>n\<le>length output. q \<noteq> take n output) \<longrightarrow> fs' q = fs q)"
    using dump_lock_writes by blast
next
  assume "(force \<or> \<not> path_exists fs output) \<and> \<not> can_write fs output"
  then show "\<exists>e fs'. dump_lock fs payload output force = (Inl e, fs')
           \<and> ((mkdir_parents fs (butlast output) = Inl e \<and> fs' = fs)
              \<or> (mkdir_parents fs (butlast output) = Inr fs'
                 \<and> open_write fs' output (json_dump payload @ [CHR 0x0A]) = Inl e))
           \<and> (\<forall>q. fs' q = fs q \<or> (fs q = None \<and> fs' q = Some Dir))"
    using dump_lock_fails by blast
qed


theorem dump_lock_overwrite_guard_witness:
  "path_exists sample_fs_locked [''locks'', ''lock.yml'']
   \<and> dump_lock sample_fs_locked (JObj []) [''locks'', ''lock.yml''] False =
        (Inl (FileExistsError ''Lock file already exists: locks/lock.yml''), sample_fs_locked)
   \<and> can_write sample_fs_locked [''locks'', ''lock.yml'']
   \<and> (\<exists>fs'. dump_lock sample_fs_locked (JObj []) [''locks'', ''lock.yml''] True
               = (Inr [''locks'', ''lock.yml''], fs')
            \<and> fs' [''locks'', ''lock.yml''] = Some (File ''{}\<newline>''))
   \<and> \<not> path_exists sample_fs [''locks'', ''new'', ''lock.yml'']
   \<and> can_write sample_fs [''locks'', ''new'', ''lock.yml'']
   \<and> (\<exists>fs'. dump_lock sample_fs (JObj []) [''locks'', ''new'', ''lock.yml''] False
               = (Inr [''locks'', ''new'', ''lock.yml''], fs')
            \<and> fs' [''locks'', ''new'', ''lock.yml''] = Some (File ''{}\<newline>'')
            \<and> fs' [''locks'', ''new''] = Some Dir)
   \<and> \<not> can_write sample_fs_locked [''locks'', ''lock.yml'', ''next.yml'']
   \<and> dump_lock sample_fs_locked (JObj []) [''locks'', ''lock.yml'', ''next.yml''] True
        = (Inl (FileExistsError ''locks/lock.yml''), sample_fs_locked)"
proof -
  let ?old = "[''locks'', ''lock.yml'']"
  let ?new = "[''locks'', ''new'', ''lock.yml'']"
  let ?bad = "[''locks'', ''lock.yml'', ''next.yml'']"
  have e0: "path_exists sample_fs_locked ?old"
    unfolding sample_fs_locked_def by code_simp
  have c0: "can_write sample_fs_locked ?old"
    unfolding sample_fs_locked_def can_write_def by (simp add: is_file_def less_Suc_eq)
  have e2: "\<not> path_exists sample_fs ?new"
    unfolding sample_fs_def by code_simp
  have e3: "can_write sample_fs ?new"
    unfolding sample_fs_def can_write_def by (simp add: is_file_def less_Suc_eq)
  have t2: "take 2 ?bad = ?old" by (simp add: take_Cons')
  have "is_file (sample_fs_locked (take 2 ?bad))"
    unfolding t2 by (simp add: sample_fs_locked_def is_file_def)
  then have e4: "\<not> can_write sample_fs_locked ?bad"
    unfolding can_write_def by (metis length_Cons lessI list.size(3) numeral_2_eq_2)
  have m: "mkdir_parents sample_fs_locked (butlast ?bad) = Inl (FileExistsError ''locks/lock.yml'')"
    by (subst mkdir_parents.simps)
       (simp add: os_mkdir_def is_dir_def sample_fs_locked_def path_str_def)
  have j: "json_dump (JObj []) = ''{}''" by (simp add: json_dump_def)
  have p: "path_str ?old = ''locks/lock.yml''" by (simp add: path_str_def)
  have t: "take 2 ?new = [''locks'', ''new'']" by (simp add: take_Cons')
  note g = dump_lock_overwrite_guard[of sample_fs_locked ?old False "JObj []"]
    dump_lock_overwrite_guard[of sample_fs_locked ?old True "JObj []"]
    dump_lock_overwrite_guard[of sample_fs ?new False "JObj []"]
    dump_lock_overwrite_guard[of sample_fs_locked ?bad True "JObj []"]
  have r1: "dump_lock sample_fs_locked (JObj []) ?old False =
        (Inl (FileExistsError ''Lock file already exists: locks/lock.yml''), sample_fs_locked)"
    using g(1) e0 unfolding p by simp
  from g(2) c0 obtain fs1 where f1:
    "dump_lock sample_fs_locked (JObj []) ?old True = (Inr ?old, fs1)"
    "fs1 ?old = Some (File (json_dump (JObj []) @ [CHR 0x0A]))"
    by blast
  have r2: "\<exists>fs'. dump_lock sample_fs_locked (JObj []) ?old True = (Inr ?old, fs')
            \<and> fs' ?old = Some (File ''{}\<newline>'')"
    using f1 unfolding j by auto
  from g(3) e2 e3 obtain fs' where f:
    "dump_lock sample_fs (JObj []) ?new False = (Inr ?new, fs')"
    "fs' ?new = Some (File (json_dump (JObj []) @ [CHR 0x0A]))"
    "\<forall>n<length ?new. fs' (take n ?new) = Some Dir"
    by blast
  have "fs' (take 2 ?new) = Some Dir"
    using f(3) by (metis length_Cons less_Suc_eq numeral_2_eq_2 list.size(3) lessI)
  then have d: "fs' [''locks'', ''new''] = Some Dir" unfolding t .
  have r3: "\<exists>fs'. dump_lock sample_fs (JObj []) ?new False = (Inr ?new, fs')
            \<and> fs' ?new = Some (File ''{}\<newline>'') \<and> fs' [''locks'', ''new''] = Some Dir"
    using f(1,2) d unfolding j by auto
  from g(4) e4 obtain e fs4 where f4:
    "dump_lock sample_fs_locked (JObj []) ?bad True = (Inl e, fs4)"
    "(mkdir_parents sample_fs_locked (butlast ?bad) = Inl e \<and> fs4 = sample_fs_locked)
      \<or> (mkdir_parents sample_fs_locked (butlast ?bad) = Inr fs4
         \<and> open_write fs4 ?bad (json_dump (JObj []) @ [CHR 0x0A]) = Inl e)"
    by blast
  from f4(2) have "e = FileExistsError ''locks/lock.yml'' \<and> fs4 = sample_fs_locked"
    unfolding m by auto
  then have r4: "dump_lock sample_fs_locked (JObj []) ?bad True
        = (Inl (FileExistsError ''locks/lock.yml''), sample_fs_locked)"
    using f4(1) by simp
  show ?thesis
    using e0 r1 c0 r2 e2 e3 r3 e4 r4 by blast
qed


subsection \<open>The serialised text\<close>














lemma with_comma_Nil [simp]: "with_comma b = [] \<longleftrightarrow> b = []"
  by (induction b rule: with_comma.induct) simp_all































text \<open>The encoder indents by two spaces for each level of nesting.\<close>

lemma iterencode_indent_example:
  "json_dump (JArr [JInt 1, JArr [JInt 2]]) = ''[\<newline>  1,\<newline>  [\<newline>    2\<newline>  ]\<newline>]''"
  by code_simp







section \<open>Properties of the seeder\<close>

subsection \<open>Validation of the CSV rows\<close>

lemma sample_normalize: "normalize_row sample_lib sample_raw = Inr sample_row"
  unfolding sample_lib_def sample_raw_def sample_row_def by code_simp

lemma sample_normalize_bad:
  "normalize_row sample_lib (sample_raw(''site_name'' \<mapsto> ''  '')) =
     Inl (ValueError ''Missing required fields: site_name'')"
  unfolding sample_lib_def sample_raw_def by code_simp

lemma missing_fields_empty:
  "missing_fields r = [] \<longleftrightarrow>
     site_key r \<noteq> [] \<and> site_name r \<noteq> [] \<and> site_slug r \<noteq> [] \<and> site_description r \<noteq> []
     \<and> site_currency r \<noteq> [] \<and> site_language r \<noteq> [] \<and> site_config r \<noteq> []
     \<and> category_name r \<noteq> [] \<and> product_name r \<noteq> [] \<and> product_description r \<noteq> []
     \<and> product_images r \<noteq> [] \<and> product_sku r \<noteq> [] \<and> product_status r \<noteq> []
     \<and> price_currency r \<noteq> []"
  unfolding missing_fields_def map_is_Nil_conv filter_empty_conv by simp

lemma normalize_row_Inr:
  assumes "normalize_row lib raw = Inr r"
  shows "missing_fields r = []"
    and "site_key r = field raw ''site_key''" and "site_name r = field raw ''site_name''"
    and "site_slug r = field raw ''site_slug''"
    and "site_description r = field raw ''site_description''"
    and "site_currency r = field raw ''site_currency''"
    and "site_language r = field raw ''site_language''"
    and "site_config r = field raw ''site_config''"
    and "category_name r = field raw ''category_name''"
    and "product_name r = field raw ''product_name''"
    and "product_description r = field raw ''product_description''"
    and "product_sku r = field raw ''product_sku''"
    and "price_currency r = field raw ''price_currency''"
    and "images_of raw \<noteq> []"
    and "field raw ''price_amount'' \<noteq> []"
    and "field raw ''inventory_initial_quantity'' \<noteq> []"
  using assms
  by (auto simp: normalize_row_def Let_def split: sum.splits if_splits)

lemma normalize_rejects:
  assumes "lacks_required_field raw"
  shows "\<exists>e. normalize_row lib raw = Inl e"
proof (cases "normalize_row lib raw")
  case (Inl e)
  then show ?thesis by blast
next
  case (Inr r)
  note f = normalize_row_Inr[OF Inr]
  have "missing_fields r = []" by (rule f(1))
  then have nonempty: "\<forall>name \<in> set required_text_fields. field raw name \<noteq> []"
    "field raw ''price_currency'' \<noteq> []"
    unfolding missing_fields_empty required_text_fields_def using f(2-13) by simp_all
  with f(14-16) assms show ?thesis
    unfolding lacks_required_field_def by blast
qed

lemma load_loop_first_failure:
  "i < length raws \<Longrightarrow> normalize_row lib (raws ! i) = Inl e0 \<Longrightarrow>
     \<exists>j e. j \<le> i \<and> (\<forall>k<j. \<exists>r. normalize_row lib (raws ! k) = Inr r)
          \<and> normalize_row lib (raws ! j) = Inl e
          \<and> load_loop lib idx rows raws =
              Inl (ValueError (''Failed to parse CSV row '' @ str_nat (j + idx) @ '': '' @ exn_str e))"
proof (induction raws arbitrary: i idx rows)
  case Nil
  then show ?case by simp
next
  case (Cons raw rest)
  show ?case
  proof (cases "normalize_row lib raw")
    case (Inl e)
    have "0 \<le> i \<and> (\<forall>k<0::nat. \<exists>r. normalize_row lib ((raw # rest) ! k) = Inr r)
          \<and> normalize_row lib ((raw # rest) ! 0) = Inl e
          \<and> load_loop lib idx rows (raw # rest) =
              Inl (ValueError (''Failed to parse CSV row '' @ str_nat (0 + idx) @ '': '' @ exn_str e))"
      using Inl by simp
    then show ?thesis by blast
  next
    case (Inr r)
    then obtain i' where i': "i = Suc i'"
      using Cons.prems(2) by (cases i) auto
    have "i' < length rest" "normalize_row lib (rest ! i') = Inl e0"
      using Cons.prems i' by simp_all
    from Cons.IH[OF this, of "Suc idx" "rows @ [r]"]
    obtain j e where j: "j \<le> i'" "\<forall>k<j. \<exists>r. normalize_row lib (rest ! k) = Inr r"
        "normalize_row lib (rest ! j) = Inl e"
        "load_loop lib (Suc idx) (rows @ [r]) rest =
           Inl (ValueError (''Failed to parse CSV row '' @ str_nat (j + Suc idx) @ '': '' @ exn_str e))"
      by blast
    have all: "\<forall>k<Suc j. \<exists>r. normalize_row lib ((raw # rest) ! k) = Inr r"
      using j(2) Inr by (auto simp: less_Suc_eq_0_disj)
    have "Suc j \<le> i \<and> (\<forall>k<Suc j. \<exists>r. normalize_row lib ((raw # rest) ! k) = Inr r)
          \<and> normalize_row lib ((raw # rest) ! Suc j) = Inl e
          \<and> load_loop lib idx rows (raw # rest) =
              Inl (ValueError (''Failed to parse CSV row '' @ str_nat (Suc j + idx) @ '': '' @ exn_str e))"
      using j(1,3,4) i' all Inr by simp
    then show ?thesis by blast
  qed
qed

lemma load_loop_all_valid:
  "load_loop lib idx rows raws = Inr result \<Longrightarrow>
     \<exists>new. result = rows @ new \<and> map (normalize_row lib) raws = map Inr new"
proof (induction raws arbitrary: idx rows)
  case Nil
  then show ?case by simp
next
  case (Cons raw rest)
  then obtain r where r: "normalize_row lib raw = Inr r"
    by (cases "normalize_row lib raw") auto
  with Cons.prems have "load_loop lib (Suc idx) (rows @ [r]) rest = Inr result" by simp
  from Cons.IH[OF this] obtain new where "result = (rows @ [r]) @ new"
      "map (normalize_row lib) rest = map Inr new" by blast
  then have "result = rows @ (r # new) \<and> map (normalize_row lib) (raw # rest) = map Inr (r # new)"
    using r by simp
  then show ?case by blast
qed


text \<open>
  Claim C2, as stated, fails: the \<open>ValueError\<close> does not always identify the row with
  the missing field. \<open>load_rows\<close> stops at the first row that fails for whatever
  reason. In a file whose first row has the quantity \<open>x\<close> and whose second row has a
  blank \<open>site_name\<close>, only the second row lacks a required field, and the error names
  line 2, the first row.
\<close>

theorem rows_validated_eagerly_counterexample:
  "lacks_required_field (sample_raw(''site_name'' \<mapsto> ''  ''))
   \<and> \<not> lacks_required_field (sample_raw(''inventory_initial_quantity'' \<mapsto> ''x''))
   \<and> load_rows sample_lib ''data/seed-data.csv''
         (Some [sample_raw(''inventory_initial_quantity'' \<mapsto> ''x''),
                sample_raw(''site_name'' \<mapsto> ''  '')])
       = Inl (ValueError (''Failed to parse CSV row 2: invalid literal for int() with base 10: ''
                          @ quoted ''x''))"
proof -
  have a: "lacks_required_field (sample_raw(''site_name'' \<mapsto> ''  ''))"
    unfolding lacks_required_field_def required_text_fields_def sample_raw_def by code_simp
  have b: "\<not> lacks_required_field (sample_raw(''inventory_initial_quantity'' \<mapsto> ''x''))"
    unfolding lacks_required_field_def required_text_fields_def sample_raw_def by code_simp
  have c: "load_rows sample_lib ''data/seed-data.csv''
         (Some [sample_raw(''inventory_initial_quantity'' \<mapsto> ''x''),
                sample_raw(''site_name'' \<mapsto> ''  '')])
       = Inl (ValueError (''Failed to parse CSV row 2: invalid literal for int() with base 10: ''
                          @ quoted ''x''))"
    unfolding sample_lib_def sample_raw_def by code_simp
  show ?thesis using a b c by simp
qed


text \<open>
  Claim C2, amended. The rows are validated eagerly and in the order of the file, and
  \<open>load_rows\<close> stops at the first row that fails. If some row of the file lacks a
  required field, \<open>load_rows\<close> returns no rows: it raises a \<open>ValueError\<close> whose message
  names the line of the first row that fails to normalise, for a missing field or for
  any other reason (line 1 is the header). That row is the row with the missing field
  when every row before it is valid. \<open>main\<close> ends with the error before any request
  is sent. When \<open>load_rows\<close> does return, every row of the file has been normalised, and
  the seeder only starts on that list.
\<close>

theorem rows_validated_eagerly:
  "(i < length raws \<and> lacks_required_field (raws ! i) \<longrightarrow>
      (\<exists>j e. j \<le> i
            \<and> (\<forall>k<j. \<exists>r. normalize_row lib (raws ! k) = Inr r)
            \<and> normalize_row lib (raws ! j) = Inl e
            \<and> ((\<forall>k<i. \<exists>r. normalize_row lib (raws ! k) = Inr r) \<longrightarrow> j = i)
            \<and> load_rows lib csv_path (Some raws) =
                Inl (ValueError (''Failed to parse CSV row '' @ str_nat (j + 2) @ '': '' @ exn_str e))
            \<and> seed_main lib csv_path (Some raws) gateway owner dry net =
                (Inl (ValueError (''Failed to parse CSV row '' @ str_nat (j + 2) @ '': '' @ exn_str e)), [])))
   \<and> (load_rows lib csv_path (Some raws) = Inr rows \<longrightarrow>
        map (normalize_row lib) raws = map Inr rows)"
proof (intro conjI impI)
  assume a: "i < length raws \<and> lacks_required_field (raws ! i)"
  then obtain e0 where "normalize_row lib (raws ! i) = Inl e0"
    using normalize_rejects by blast
  from load_loop_first_failure[OF _ this, of 2 "[]"] a
  obtain j e where j: "j \<le> i" "\<forall>k<j. \<exists>r. normalize_row lib (raws ! k) = Inr r"
      "normalize_row lib (raws ! j) = Inl e"
      "load_loop lib 2 [] raws =
         Inl (ValueError (''Failed to parse CSV row '' @ str_nat (j + 2) @ '': '' @ exn_str e))"
    by blast
  have first: "(\<forall>k<i. \<exists>r. normalize_row lib (raws ! k) = Inr r) \<longrightarrow> j = i"
  proof
    assume v: "\<forall>k<i. \<exists>r. normalize_row lib (raws ! k) = Inr r"
    show "j = i"
    proof (rule ccontr)
      assume "j \<noteq> i"
      then have "j < i" using j(1) by simp
      then obtain r where "normalize_row lib (raws ! j) = Inr r" using v by blast
      then show False using j(3) by simp
    qed
  qed
  have l: "load_rows lib csv_path (Some raws) =
      Inl (ValueError (''Failed to parse CSV row '' @ str_nat (j + 2) @ '': '' @ exn_str e))"
    using j(4) by (simp add: load_rows_def)
  then have "seed_main lib csv_path (Some raws) gateway owner dry net =
      (Inl (ValueError (''Failed to parse CSV row '' @ str_nat (j + 2) @ '': '' @ exn_str e)), [])"
    by (simp add: seed_main_def)
  with j(1,2,3) l first show "\<exists>j e. j \<le> i
            \<and> (\<forall>k<j. \<exists>r. normalize_row lib (raws ! k) = Inr r)
            \<and> normalize_row lib (raws ! j) = Inl e
            \<and> ((\<forall>k<i. \<exists>r. normalize_row lib (raws ! k) = Inr r) \<longrightarrow> j = i)
            \<and> load_rows lib csv_path (Some raws) =
                Inl (ValueError (''Failed to parse CSV row '' @ str_nat (j + 2) @ '': '' @ exn_str e))
            \<and> seed_main lib csv_path (Some raws) gateway owner dry net =
                (Inl (ValueError (''Failed to parse CSV row '' @ str_nat (j + 2) @ '': '' @ exn_str e)), [])"
    by blast
next
  assume "load_rows lib csv_path (Some raws) = Inr rows"
  then have "load_loop lib 2 [] raws = Inr rows" by (simp add: load_rows_def)
  from load_loop_all_valid[OF this] show "map (normalize_row lib) raws = map Inr rows"
    by simp
qed

theorem rows_validated_eagerly_witness:
  "(1::nat) < length [sample_raw, sample_raw(''site_name'' \<mapsto> ''  '')]
   \<and> lacks_required_field ([sample_raw, sample_raw(''site_name'' \<mapsto> ''  '')] ! 1)
   \<and> normalize_row sample_lib ([sample_raw, sample_raw(''site_name'' \<mapsto> ''  '')] ! 0) = Inr sample_row
   \<and> load_rows sample_lib ''data/seed-data.csv'' (Some [sample_raw, sample_raw(''site_name'' \<mapsto> ''  '')])
       = Inl (ValueError ''Failed to parse CSV row 3: Missing required fields: site_name'')
   \<and> seed_main sample_lib ''data/seed-data.csv'' (Some [sample_raw, sample_raw(''site_name'' \<mapsto> ''  '')])
        ''http://localhost:9000'' ''11111111-1111-1111-1111-111111111111'' False (\<lambda>sent req. URLError ''down'')
       = (Inl (ValueError ''Failed to parse CSV row 3: Missing required fields: site_name''), [])
   \<and> load_rows sample_lib ''data/seed-data.csv'' (Some [sample_raw]) = Inr [sample_row]
   \<and> map (normalize_row sample_lib) [sample_raw] = map Inr [sample_row]"
proof -
  let ?raws = "[sample_raw, sample_raw(''site_name'' \<mapsto> ''  '')]"
  have h1: "(1::nat) < length ?raws" by simp
  have f: "field (sample_raw(''site_name'' \<mapsto> ''  '')) ''site_name'' = []"
    by code_simp
  have h2: "lacks_required_field (?raws ! 1)"
    unfolding lacks_required_field_def required_text_fields_def using f by simp
  have h3: "\<forall>k<1::nat. \<exists>r. normalize_row sample_lib (?raws ! k) = Inr r"
    using sample_normalize by simp
  have n3: "str_nat 3 = ''3''" by code_simp
  have g: "load_rows sample_lib ''data/seed-data.csv'' (Some [sample_raw]) = Inr [sample_row]"
    by (simp add: load_rows_def sample_normalize)
  note t = rows_validated_eagerly[of 1 ?raws sample_lib "''data/seed-data.csv''"
      "''http://localhost:9000''" "''11111111-1111-1111-1111-111111111111''" False
      "\<lambda>sent req. URLError ''down''"]
    rows_validated_eagerly[of 0 "[sample_raw]" sample_lib "''data/seed-data.csv''" _ _ _ _ "[sample_row]"]
  from t(1) h1 h2 obtain j e where j: "j \<le> 1"
      "normalize_row sample_lib (?raws ! j) = Inl e"
      "(\<forall>k<1::nat. \<exists>r. normalize_row sample_lib (?raws ! k) = Inr r) \<longrightarrow> j = 1"
      "load_rows sample_lib ''data/seed-data.csv'' (Some ?raws) =
         Inl (ValueError (''Failed to parse CSV row '' @ str_nat (j + 2) @ '': '' @ exn_str e))"
      "seed_main sample_lib ''data/seed-data.csv'' (Some ?raws) ''http://localhost:9000''
          ''11111111-1111-1111-1111-111111111111'' False (\<lambda>sent req. URLError ''down'') =
         (Inl (ValueError (''Failed to parse CSV row '' @ str_nat (j + 2) @ '': '' @ exn_str e)), [])"
    by blast
  have j1: "j = 1" using j(3) h3 by blast
  have e: "e = ValueError ''Missing required fields: site_name''"
    using j(2) sample_normalize_bad unfolding j1 by simp
  have m: "''Failed to parse CSV row '' @ str_nat (j + 2) @ '': '' @ exn_str e
        = ''Failed to parse CSV row 3: Missing required fields: site_name''"
  proof -
    have "j + 2 = 3" using j1 by simp
    then show ?thesis unfolding e by (simp only: n3 exn_str_def exn.case) simp
  qed
  from t(2) g have v: "map (normalize_row sample_lib) [sample_raw] = map Inr [sample_row]"
    by blast
  show ?thesis
    using h1 h2 sample_normalize j(4,5) g v unfolding m by simp
qed


end
